theory Spec2Isabelle
  imports Main
begin

section \<open>Python values, exceptions and observable events\<close>

text \<open>
  The scripts exchange JSON documents and sample-sheet rows. Both are Python values:
  \<open>None\<close>, booleans, numbers, strings, lists and dictionaries. A dictionary is kept as
  an association list with distinct keys, looked up with \<open>map_of\<close>.
\<close>

datatype pyval =
    PNone
  | PBool bool
  | PInt int
  | PStr string
  | PList "pyval list"
  | PDict "(string \<times> pyval) list"

text \<open>
  Exceptions are values. \<open>KeyError\<close> carries the missing key, \<open>RuntimeError\<close> the
  message the scripts build themselves, \<open>Raised\<close> the message of an exception that a
  library call (subprocess, file system, SMTP, HTTP, JSON decoding) raised.
\<close>

datatype py_error =
    KeyError string
  | TypeError
  | AttributeError
  | ValueError
  | RuntimeError string
  | Raised string

text \<open>
  What a script does besides returning: the commands it runs, its sleeps, the lines it
  prints or logs and the notifications it sends, in order. A
  printed \<open>f"...{str(e)}"\<close> keeps the exception symbolic (\<open>PrintExc\<close>), a printed
  \<open>f"...{value}"\<close> the decoded value (\<open>PrintVal\<close>); \<open>RunV\<close> is a command that holds decoded
  values among its arguments; \<open>Traceback\<close> is the report of an exception that nothing
  caught, after which the interpreter exits with 1.
\<close>

datatype event =
    Run "string list"
  | RunV "pyval list"
  | Sleep int
  | Print string
  | PrintExc string py_error
  | PrintVal string pyval
  | Traceback py_error
  | LogInfo string
  | LogWarning string
  | LogError string
  | LogExc string py_error
  | SmtpConnect string int
  | SmtpLogin string string
  | SmtpSend string string string string
  | SlackPost string string

text \<open>
  \<open>subprocess.run(cmd, capture_output=True, text=True)\<close> either raises (\<open>Inl\<close>, with
  the exception's message) or returns a completed process. Where the caller decodes the
  standard output with \<open>json.loads\<close>, the field \<open>stdout\<close> holds the outcome of that
  decoding: the message of the decoder's exception, or the decoded value.
\<close>

record 'o completed_process =
  returncode :: int
  stdout :: 'o
  stderr :: string

type_synonym 'o run_result = "string + 'o completed_process"

type_synonym json_stdout = "string + pyval"

subsection \<open>Operations of Python the scripts use\<close>

definition py_getitem :: "pyval \<Rightarrow> string \<Rightarrow> py_error + pyval" where
  \<comment> \<open>\<open>v[k]\<close> for a string key: only a dictionary answers, with KeyError when the key is missing\<close>
  "py_getitem v k =
     (case v of
        PDict kvs \<Rightarrow> (case map_of kvs k of None \<Rightarrow> Inl (KeyError k) | Some x \<Rightarrow> Inr x)
      | _ \<Rightarrow> Inl TypeError)"

definition py_get :: "pyval \<Rightarrow> string \<Rightarrow> pyval \<Rightarrow> py_error + pyval" where
  \<comment> \<open>\<open>v.get(k, default)\<close>: only a dictionary has the method\<close>
  "py_get v k d =
     (case v of
        PDict kvs \<Rightarrow> (case map_of kvs k of None \<Rightarrow> Inr d | Some x \<Rightarrow> Inr x)
      | _ \<Rightarrow> Inl AttributeError)"

definition py_iter :: "pyval \<Rightarrow> py_error + pyval list" where
  \<comment> \<open>the elements a \<open>for\<close> loop visits: a dictionary yields its keys, a string its characters\<close>
  "py_iter v =
     (case v of
        PList xs \<Rightarrow> Inr xs
      | PDict kvs \<Rightarrow> Inr (map (\<lambda>kv. PStr (fst kv)) kvs)
      | PStr s \<Rightarrow> Inr (map (\<lambda>c. PStr [c]) s)
      | _ \<Rightarrow> Inl TypeError)"

fun truthy :: "pyval \<Rightarrow> bool" where
  "truthy PNone = False"
| "truthy (PBool b) = b"
| "truthy (PInt i) = (i \<noteq> 0)"
| "truthy (PStr s) = (s \<noteq> [])"
| "truthy (PList xs) = (xs \<noteq> [])"
| "truthy (PDict kvs) = (kvs \<noteq> [])"

definition lower_char :: "char \<Rightarrow> char" where
  "lower_char c =
     (case map_of (zip ''ABCDEFGHIJKLMNOPQRSTUVWXYZ'' ''abcdefghijklmnopqrstuvwxyz'') c of
        None \<Rightarrow> c
      | Some d \<Rightarrow> d)"

definition py_lower :: "string \<Rightarrow> string" where
  \<comment> \<open>\<open>str.lower()\<close> on ASCII strings, where it folds \<open>A-Z\<close> and nothing else. Python folds
      every cased letter; on a string that is not ASCII this is not \<open>str.lower()\<close>, and
      what is proved about it is stated for ASCII strings (\<open>is_ascii\<close>).\<close>
  "py_lower s = map lower_char s"

definition is_ascii :: "string \<Rightarrow> bool" where
  "is_ascii s = list_all (\<lambda>c. (of_char c :: nat) < 128) s"

definition str_lower :: "pyval \<Rightarrow> py_error + string" where
  \<comment> \<open>\<open>v.lower()\<close>: only a string has the method\<close>
  "str_lower v = (case v of PStr s \<Rightarrow> Inr (py_lower s) | _ \<Rightarrow> Inl AttributeError)"

definition quote :: "string \<Rightarrow> string" where
  \<comment> \<open>a name between single quotes, as the messages print it\<close>
  "quote s = [CHR 0x27] @ s @ [CHR 0x27]"

section \<open>Resolving names to identifiers (ica_cli_upload.py, ica_cli_pipeline.py)\<close>

text \<open>
  \<open>get_project_id\<close> and \<open>get_pipeline_id\<close> run the same loop over the decoded listing:
  \<^verbatim>\<open>
  for project in projects:
      if project['name'].lower() == project_name.lower():
          return project['id']
  \<close>
  \<open>Inr (Some v)\<close> is the \<open>return\<close> inside the loop, \<open>Inr None\<close> the loop running to its
  end, \<open>Inl e\<close> an exception raised by an entry.
\<close>

fun find_by_name :: "pyval list \<Rightarrow> string \<Rightarrow> py_error + pyval option" where
  "find_by_name [] wanted = Inr None"
| "find_by_name (entry # rest) wanted =
     (case py_getitem entry ''name'' of
        Inl e \<Rightarrow> Inl e
      | Inr n \<Rightarrow>
          (case str_lower n of
             Inl e \<Rightarrow> Inl e
           | Inr l \<Rightarrow>
               if l = py_lower wanted
               then (case py_getitem entry ''id'' of Inl e \<Rightarrow> Inl e | Inr i \<Rightarrow> Inr (Some i))
               else find_by_name rest wanted))"

definition get_project_id :: "json_stdout run_result \<Rightarrow> string \<Rightarrow> event list \<times> pyval" where
  \<comment> \<open>the first argument is the outcome of \<open>ica projects list --output json\<close>\<close>
  "get_project_id listing project_name =
     (case listing of
        Inl msg \<Rightarrow> ([PrintExc ''Error getting project ID: '' (Raised msg)], PNone)
      | Inr result \<Rightarrow>
          if returncode result \<noteq> 0
          then ([Print (''Error listing projects: '' @ stderr result)], PNone)
          else
            (case stdout result of
               Inl msg \<Rightarrow> ([PrintExc ''Error getting project ID: '' (Raised msg)], PNone)
             | Inr projects \<Rightarrow>
                 (case py_iter projects of
                    Inl e \<Rightarrow> ([PrintExc ''Error getting project ID: '' e], PNone)
                  | Inr entries \<Rightarrow>
                      (case find_by_name entries project_name of
                         Inl e \<Rightarrow> ([PrintExc ''Error getting project ID: '' e], PNone)
                       | Inr (Some i) \<Rightarrow> ([], i)
                       | Inr None \<Rightarrow>
                           ([Print (''Project '' @ quote project_name @ '' not found'')], PNone)))))"

definition get_pipeline_id ::
  "json_stdout run_result \<Rightarrow> string \<Rightarrow> string \<Rightarrow> event list \<times> pyval" where
  \<comment> \<open>the first argument is the outcome of \<open>ica pipelines list --project-id ... --output json\<close>\<close>
  "get_pipeline_id listing project_id pipeline_name =
     (case listing of
        Inl msg \<Rightarrow> ([PrintExc ''Error getting pipeline ID: '' (Raised msg)], PNone)
      | Inr result \<Rightarrow>
          if returncode result \<noteq> 0
          then ([Print (''Error listing pipelines: '' @ stderr result)], PNone)
          else
            (case stdout result of
               Inl msg \<Rightarrow> ([PrintExc ''Error getting pipeline ID: '' (Raised msg)], PNone)
             | Inr pipelines \<Rightarrow>
                 (case py_iter pipelines of
                    Inl e \<Rightarrow> ([PrintExc ''Error getting pipeline ID: '' e], PNone)
                  | Inr entries \<Rightarrow>
                      (case find_by_name entries pipeline_name of
                         Inl e \<Rightarrow> ([PrintExc ''Error getting pipeline ID: '' e], PNone)
                       | Inr (Some i) \<Rightarrow> ([], i)
                       | Inr None \<Rightarrow>
                           ([Print (''Pipeline '' @ quote pipeline_name @ '' not found in project'')],
                            PNone)))))"

section \<open>The batch processor (ica_batch_processor.py)\<close>

text \<open>
  A row of the sample sheet is a Python value. \<open>csv.DictReader\<close> yields dictionaries of
  strings (and \<open>None\<close> for a short row); a YAML sheet adds booleans, integers and nested
  mappings with string keys. Sequences inside a row are not modelled.
\<close>

datatype sval =
    SNone
  | SBool bool
  | SInt int
  | SStr string
  | SMap "(string \<times> sval) list"

type_synonym params = "string \<rightharpoonup> sval"

definition row_getitem :: "sval \<Rightarrow> string \<Rightarrow> py_error + sval" where
  \<comment> \<open>\<open>sample[k]\<close>\<close>
  "row_getitem sample k =
     (case sample of
        SMap kvs \<Rightarrow> (case map_of kvs k of None \<Rightarrow> Inl (KeyError k) | Some v \<Rightarrow> Inr v)
      | _ \<Rightarrow> Inl TypeError)"

definition format_value :: "(sval \<Rightarrow> string) \<Rightarrow> sval \<Rightarrow> string" where
  \<comment> \<open>\<open>f"{v}"\<close>: a string stands for itself; \<open>str_of\<close> is Python's \<open>str()\<close> on the other values\<close>
  "format_value str_of v = (case v of SStr s \<Rightarrow> s | _ \<Rightarrow> str_of v)"

definition dict_update :: "params \<Rightarrow> sval \<Rightarrow> py_error + params" where
  \<comment> \<open>\<open>base_params.update(v)\<close>: a mapping is merged over the dictionary; a string is read
      as a sequence of pairs, so only the empty one is accepted; nothing else is iterable\<close>
  "dict_update base_params v =
     (case v of
        SMap kvs \<Rightarrow> Inr (base_params ++ map_of kvs)
      | SStr s \<Rightarrow> if s = [] then Inr base_params else Inl ValueError
      | _ \<Rightarrow> Inl TypeError)"

definition generate_params :: "(sval \<Rightarrow> string) \<Rightarrow> sval \<Rightarrow> py_error + params" where
  \<comment> \<open>\<open>ICABatchProcessor._generate_params\<close>, lines 90-124\<close>
  "generate_params str_of sample =
     (case sample of
        SMap kvs \<Rightarrow>
          (case map_of kvs ''sample_id'' of
             None \<Rightarrow> Inl (KeyError ''sample_id'')
           | Some sid \<Rightarrow>
               (case map_of kvs ''reference'' of
                  None \<Rightarrow> Inl (KeyError ''reference'')
                | Some ref \<Rightarrow>
                    (let r = format_value str_of ref;
                         base_params =
                           [''sample-id'' \<mapsto> sid,
                            ''reference-tar'' \<mapsto> SStr (''/reference-data/'' @ r @ ''/'' @ r @ ''.fa''),
                            ''output-directory'' \<mapsto> SStr ''/output'']
                     in
                       (case map_of kvs ''pipeline'' of
                          None \<Rightarrow> Inl (KeyError ''pipeline'')
                        | Some p \<Rightarrow>
                            (let typed_params =
                               (if p = SStr ''dragen-germline'' then
                                  base_params ++
                                    [''enable-map-align'' \<mapsto> SBool True,
                                     ''enable-sort'' \<mapsto> SBool True,
                                     ''enable-duplicate-marking'' \<mapsto> SBool True,
                                     ''enable-variant-caller'' \<mapsto> SBool True]
                                else if p = SStr ''dragen-rna'' then
                                  base_params ++
                                    [''enable-rna'' \<mapsto> SBool True,
                                     ''enable-rna-quantification'' \<mapsto> SBool True,
                                     ''annotation-file'' \<mapsto> SStr (''/reference-data/'' @ r @ ''/genes.gtf'')]
                                else if p = SStr ''dragen-enrichment'' then
                                  base_params ++
                                    [''enable-map-align'' \<mapsto> SBool True,
                                     ''enable-variant-caller'' \<mapsto> SBool True,
                                     ''vc-target-bed'' \<mapsto>
                                       (case map_of kvs ''target_bed'' of None \<Rightarrow> SNone | Some b \<Rightarrow> b),
                                     ''vc-target-bed-padding'' \<mapsto> SInt 100]
                                else base_params)
                             in
                               (case map_of kvs ''custom_params'' of
                                  None \<Rightarrow> Inr typed_params
                                | Some c \<Rightarrow> dict_update typed_params c))))))
      | _ \<Rightarrow> Inl TypeError)"

text \<open>
  What the environment answers while one sample is processed: the outcome of each
  \<open>subprocess.run\<close> (by its command), whether writing the parameter file raised (by its
  name), the clock read for the result's timestamp, and Python's \<open>str()\<close>.
\<close>

record item_env =
  run_cmd :: "sval list \<Rightarrow> string run_result"
  dump_params :: "string \<Rightarrow> string option"
  clock :: string
  py_str :: "sval \<Rightarrow> string"

datatype batch_event =
    BRun "sval list"
  | BWrite string
  | BLogError sval py_error
  | BLogInfo sval string

record work_item_result =
  wi_sample_id :: sval
  wi_status :: string
  wi_error :: "py_error option"
  wi_timestamp :: string

text \<open>
  The body of the \<open>try\<close> in \<open>process_sample\<close> (lines 48-79) is three stages in a row
  (the upload, the parameter file, the pipeline) and the \<open>return\<close> of the completed
  result. Each part returns the events it caused and either the exception that ended it
  or its result.
\<close>

definition upload_stage :: "item_env \<Rightarrow> string \<Rightarrow> sval \<Rightarrow> batch_event list \<times> (py_error + unit)" where
  "upload_stage env project_name sample =
     (case row_getitem sample ''data_folder'' of
        Inl e \<Rightarrow> ([], Inl e)
      | Inr data_folder \<Rightarrow>
          (case row_getitem sample ''sample_id'' of
             Inl e \<Rightarrow> ([], Inl e)
           | Inr sid \<Rightarrow>
               (let upload_cmd =
                      [SStr ''python'', SStr ''ica_cli_upload.py'', data_folder,
                       SStr project_name, SStr ''--folder-name'', sid]
                in
                  (case run_cmd env upload_cmd of
                     Inl msg \<Rightarrow> ([BRun upload_cmd], Inl (Raised msg))
                   | Inr result \<Rightarrow>
                       if returncode result \<noteq> 0
                       then ([BRun upload_cmd],
                             Inl (RuntimeError (''Upload failed: '' @ stderr result)))
                       else ([BRun upload_cmd], Inr ())))))"

definition params_stage :: "item_env \<Rightarrow> sval \<Rightarrow> batch_event list \<times> (py_error + string)" where
  "params_stage env sample =
     (case generate_params (py_str env) sample of
        Inl e \<Rightarrow> ([], Inl e)
      | Inr ps \<Rightarrow>
          (case row_getitem sample ''sample_id'' of
             Inl e \<Rightarrow> ([], Inl e)
           | Inr sid \<Rightarrow>
               (let params_file = format_value (py_str env) sid @ ''_params.json''
                in
                  (case dump_params env params_file of
                     Some msg \<Rightarrow> ([BWrite params_file], Inl (Raised msg))
                   | None \<Rightarrow> ([BWrite params_file], Inr params_file)))))"

definition pipeline_stage ::
  "item_env \<Rightarrow> string \<Rightarrow> sval \<Rightarrow> string \<Rightarrow> batch_event list \<times> (py_error + unit)" where
  "pipeline_stage env project_name sample params_file =
     (case row_getitem sample ''data_folder'' of
        Inl e \<Rightarrow> ([], Inl e)
      | Inr data_folder \<Rightarrow>
          (case row_getitem sample ''pipeline'' of
             Inl e \<Rightarrow> ([], Inl e)
           | Inr pipeline \<Rightarrow>
               (case row_getitem sample ''sample_id'' of
                  Inl e \<Rightarrow> ([], Inl e)
                | Inr sid \<Rightarrow>
                    (let pipeline_cmd =
                           [SStr ''python'', SStr ''ica_cli_workflow.py'', data_folder,
                            SStr project_name, pipeline,
                            SStr (''./results/'' @ format_value (py_str env) sid),
                            SStr ''--params-file'', SStr params_file]
                     in
                       (case run_cmd env pipeline_cmd of
                          Inl msg \<Rightarrow> ([BRun pipeline_cmd], Inl (Raised msg))
                        | Inr result \<Rightarrow>
                            if returncode result \<noteq> 0
                            then ([BRun pipeline_cmd],
                                  Inl (RuntimeError (''Pipeline failed: '' @ stderr result)))
                            else ([BRun pipeline_cmd], Inr ()))))))"

definition try_body ::
  "item_env \<Rightarrow> string \<Rightarrow> sval \<Rightarrow> batch_event list \<times> (py_error + work_item_result)" where
  "try_body env project_name sample =
     (case upload_stage env project_name sample of
        (t1, Inl e) \<Rightarrow> (t1, Inl e)
      | (t1, Inr u) \<Rightarrow>
          (case params_stage env sample of
             (t2, Inl e) \<Rightarrow> (t1 @ t2, Inl e)
           | (t2, Inr params_file) \<Rightarrow>
               (case pipeline_stage env project_name sample params_file of
                  (t3, Inl e) \<Rightarrow> (t1 @ t2 @ t3, Inl e)
                | (t3, Inr u') \<Rightarrow>
                    (case row_getitem sample ''sample_id'' of
                       Inl e \<Rightarrow> (t1 @ t2 @ t3, Inl e)
                     | Inr sid \<Rightarrow>
                         (t1 @ t2 @ t3,
                          Inr \<lparr>wi_sample_id = sid, wi_status = ''completed'', wi_error = None,
                               wi_timestamp = clock env\<rparr>)))))"

definition process_sample ::
  "item_env \<Rightarrow> string \<Rightarrow> sval \<Rightarrow> batch_event list \<times> (py_error + work_item_result)" where
  \<comment> \<open>\<open>ICABatchProcessor.process_sample\<close>, lines 45-88. The handler reads
      \<open>sample['sample_id']\<close> itself: an exception raised there leaves the function.\<close>
  "process_sample env project_name sample =
     (case try_body env project_name sample of
        (t, Inr r) \<Rightarrow> (t, Inr r)
      | (t, Inl e) \<Rightarrow>
          (case row_getitem sample ''sample_id'' of
             Inl e' \<Rightarrow> (t, Inl e')
           | Inr sid \<Rightarrow>
               (t @ [BLogError sid e],
                Inr \<lparr>wi_sample_id = sid, wi_status = ''failed'', wi_error = Some e,
                     wi_timestamp = clock env\<rparr>)))"

text \<open>
  \<open>process_batch\<close> (lines 126-167) starts after the sample sheet has been read. The
  pool is created first: \<open>ThreadPoolExecutor(max_workers=self.max_concurrent)\<close> raises
  ValueError unless the number is positive, before any sample runs. Then every
  sample is submitted to the pool; \<open>future.result()\<close> is taken in submission order,
  and re-raises what the sample's \<open>process_sample\<close> raised, which ends the batch before
  anything is written. The environment of a batch gives each position its own answers
  (whatever the interleaving of the workers was), the clock read for the summary, and
  whether creating the output directory or writing an output file raised (by its path).
\<close>

record batch_env =
  item_envs :: "nat \<Rightarrow> item_env"
  summary_clock :: string
  write_file :: "string \<Rightarrow> string option"

record batch_summary =
  total_samples :: nat
  completed :: nat
  failed :: nat
  timestamp :: string

record batch_output =
  returned :: "work_item_result list"
  results_json :: "work_item_result list"
  summary_json :: batch_summary
  batch_log :: "batch_event list"

fun run_items ::
  "(nat \<Rightarrow> item_env) \<Rightarrow> string \<Rightarrow> nat \<Rightarrow> sval list \<Rightarrow>
   (batch_event list \<times> (py_error + work_item_result)) list" where
  \<comment> \<open>one \<open>process_sample\<close> per submitted sample, the i-th with the i-th environment\<close>
  "run_items envs project_name i [] = []"
| "run_items envs project_name i (sample # rest) =
     process_sample (envs i) project_name sample # run_items envs project_name (Suc i) rest"

fun collect_results ::
  "(batch_event list \<times> (py_error + work_item_result)) list \<Rightarrow> py_error + work_item_result list" where
  \<comment> \<open>the loop over the futures: the first one that raised ends it\<close>
  "collect_results [] = Inr []"
| "collect_results ((t, Inl e) # rest) = Inl e"
| "collect_results ((t, Inr r) # rest) =
     (case collect_results rest of Inl e \<Rightarrow> Inl e | Inr rs \<Rightarrow> Inr (r # rs))"

definition process_batch ::
  "batch_env \<Rightarrow> int \<Rightarrow> string \<Rightarrow> sval list \<Rightarrow> py_error + batch_output" where
  "process_batch env max_concurrent project_name samples =
     (if max_concurrent \<le> 0 then Inl ValueError
      else
     (case collect_results (run_items (item_envs env) project_name 0 samples) of
        Inl e \<Rightarrow> Inl e
      | Inr results \<Rightarrow>
          (let summary =
                 \<lparr>total_samples = length samples,
                  completed = length (filter (\<lambda>r. wi_status r = ''completed'') results),
                  failed = length (filter (\<lambda>r. wi_status r = ''failed'') results),
                  timestamp = summary_clock env\<rparr>
           in
             (case write_file env ''batch_results'' of
                Some msg \<Rightarrow> Inl (Raised msg)
              | None \<Rightarrow>
                  (case write_file env ''batch_results/results.json'' of
                     Some msg \<Rightarrow> Inl (Raised msg)
                   | None \<Rightarrow>
                       (case write_file env ''batch_results/summary.json'' of
                          Some msg \<Rightarrow> Inl (Raised msg)
                        | None \<Rightarrow>
                            Inr \<lparr>returned = results, results_json = results,
                                 summary_json = summary,
                                 batch_log =
                                   map (\<lambda>r. BLogInfo (wi_sample_id r) (wi_status r)) results\<rparr>))))))"


section \<open>The single-sample workflow (ica_cli_workflow.py)\<close>

text \<open>
  The workflow script starts its three stages as child processes. The environment gives
  the interpreter's path (\<open>sys.executable\<close>), the path of a script beside this one
  (\<open>os.path.join(os.path.dirname(__file__), name)\<close>) and the outcome of running a
  command; the standard output of a child is kept as its lines (\<open>splitlines()\<close>). Paths
  are POSIX paths.
\<close>

record workflow_env =
  executable :: string
  script_path :: "string \<Rightarrow> string"
  run :: "string list \<Rightarrow> string list run_result"

definition is_space :: "char \<Rightarrow> bool" where
  \<comment> \<open>the ASCII characters \<open>str.strip()\<close> removes; it also removes the white space
      beyond ASCII (such as U+00A0), which is not modelled\<close>
  "is_space c =
     (c \<in> set [CHR '' '', CHR 0x09, CHR 0x0A, CHR 0x0B, CHR 0x0C, CHR 0x0D,
                CHR 0x1C, CHR 0x1D, CHR 0x1E, CHR 0x1F])"

definition py_strip :: "string \<Rightarrow> string" where
  "py_strip s = rev (dropWhile is_space (rev (dropWhile is_space s)))"

definition rstrip_chars :: "string \<Rightarrow> string \<Rightarrow> string" where
  \<comment> \<open>\<open>s.rstrip(chars)\<close>\<close>
  "rstrip_chars chars s = rev (dropWhile (\<lambda>c. c \<in> set chars) (rev s))"

definition basename :: "string \<Rightarrow> string" where
  \<comment> \<open>\<open>os.path.basename\<close>: what follows the last slash\<close>
  "basename p = rev (takeWhile (\<lambda>c. c \<noteq> CHR ''/'') (rev p))"

fun after_first :: "string \<Rightarrow> string \<Rightarrow> string option" where
  \<comment> \<open>\<open>line.split(pat, 1)[1]\<close> when \<open>pat in line\<close>, for a pattern that is not empty\<close>
  "after_first pat [] = None"
| "after_first pat (c # cs) =
     (if take (length pat) (c # cs) = pat then Some (drop (length pat) (c # cs))
      else after_first pat cs)"

fun digit_char :: "nat \<Rightarrow> char" where
  "digit_char n = ''0123456789'' ! (n mod 10)"

function str_nat :: "nat \<Rightarrow> string" where
  "str_nat n = (if n < 10 then [digit_char n] else str_nat (n div 10) @ [digit_char n])"
  by pat_completeness auto
termination
  by (relation "measure (\<lambda>n. n)") auto

definition str_int :: "int \<Rightarrow> string" where
  \<comment> \<open>\<open>str(i)\<close> for an integer\<close>
  "str_int i = (if i < 0 then CHR ''-'' # str_nat (nat (- i)) else str_nat (nat i))"

definition opt_truthy :: "string option \<Rightarrow> bool" where
  \<comment> \<open>the truth value of an \<open>Optional[str]\<close>: neither \<open>None\<close> nor the empty string\<close>
  "opt_truthy v = (case v of None \<Rightarrow> False | Some s \<Rightarrow> s \<noteq> [])"

definition check_ica_cli :: "string list run_result \<Rightarrow> bool" where
  \<comment> \<open>the argument is the outcome of \<open>ica --version\<close>. The one exception the source
      catches is FileNotFoundError, and \<open>Inl\<close> stands for it here; any other exception of
      the probe would leave \<open>main\<close> and is not among the outcomes modelled.\<close>
  "check_ica_cli probe = (case probe of Inl msg \<Rightarrow> False | Inr result \<Rightarrow> returncode result = 0)"

definition upload_command :: "workflow_env \<Rightarrow> string \<Rightarrow> string \<Rightarrow> string option \<Rightarrow> string list" where
  "upload_command env input_folder project_name folder_name =
     [executable env, script_path env ''ica_cli_upload.py'', input_folder, project_name]
     @ (case folder_name of
          None \<Rightarrow> []
        | Some f \<Rightarrow> if f \<noteq> [] then [''--folder-name'', f] else [])"

definition run_upload ::
  "workflow_env \<Rightarrow> string \<Rightarrow> string \<Rightarrow> string option \<Rightarrow> event list \<times> string option" where
  \<comment> \<open>lines 22-54\<close>
  "run_upload env input_folder project_name folder_name =
     (let cmd = upload_command env input_folder project_name folder_name;
          intro =
            [Print (CHR 0x0A # ''=== Step 1: Uploading Data ===''),
             Print (''Uploading '' @ input_folder @ '' to project '' @ quote project_name @ ''...''),
             Run cmd]
      in
        (case run env cmd of
           Inl msg \<Rightarrow> (intro @ [PrintExc ''Error running upload script: '' (Raised msg)], None)
         | Inr result \<Rightarrow>
             if returncode result = 0
             then (intro,
                   Some (if opt_truthy folder_name then the folder_name
                         else basename (rstrip_chars [CHR ''/'', CHR 0x5C] input_folder)))
             else (intro @ [Print (''Error during upload: '' @ stderr result)], None)))"

fun extract_analysis_id :: "string list \<Rightarrow> string option" where
  \<comment> \<open>the loop over the output lines, lines 91-93\<close>
  "extract_analysis_id [] = None"
| "extract_analysis_id (line # rest) =
     (case after_first ''Analysis ID:'' line of
        Some tail \<Rightarrow> Some (py_strip tail)
      | None \<Rightarrow> extract_analysis_id rest)"

definition pipeline_command ::
  "workflow_env \<Rightarrow> string \<Rightarrow> string \<Rightarrow> string \<Rightarrow> string option \<Rightarrow> string option \<Rightarrow> string list" where
  "pipeline_command env project_name pipeline_name input_folder params_file analysis_name =
     [executable env, script_path env ''ica_cli_pipeline.py'', project_name, pipeline_name,
      input_folder]
     @ (if opt_truthy params_file then [''--params-file'', the params_file] else [])
     @ (if opt_truthy analysis_name then [''--analysis-name'', the analysis_name] else [])"

definition run_pipeline ::
  "workflow_env \<Rightarrow> string \<Rightarrow> string \<Rightarrow> string \<Rightarrow> string option \<Rightarrow> string option \<Rightarrow>
   event list \<times> string option" where
  \<comment> \<open>lines 56-104\<close>
  "run_pipeline env project_name pipeline_name input_folder params_file analysis_name =
     (let cmd = pipeline_command env project_name pipeline_name input_folder params_file
                  analysis_name;
          intro =
            [Print (CHR 0x0A # ''=== Step 2: Starting Pipeline ===''),
             Print (''Starting pipeline '' @ quote pipeline_name @ '' on folder ''
                    @ quote input_folder @ ''...''),
             Run cmd]
      in
        (case run env cmd of
           Inl msg \<Rightarrow> (intro @ [PrintExc ''Error running pipeline script: '' (Raised msg)], None)
         | Inr result \<Rightarrow>
             if returncode result = 0
             then
               (case extract_analysis_id (stdout result) of
                  Some analysis_id \<Rightarrow> (intro, Some analysis_id)
                | None \<Rightarrow>
                    (intro @ [Print ''Warning: Could not extract analysis ID from output''], None))
             else (intro @ [Print (''Error starting pipeline: '' @ stderr result)], None)))"

definition download_command ::
  "workflow_env \<Rightarrow> string \<Rightarrow> string \<Rightarrow> string \<Rightarrow> int \<Rightarrow> string list" where
  "download_command env project_name analysis_id output_dir polling_interval =
     [executable env, script_path env ''ica_cli_download.py'', project_name, analysis_id,
      output_dir, ''--polling-interval'', str_int polling_interval]"

definition run_download ::
  "workflow_env \<Rightarrow> string \<Rightarrow> string \<Rightarrow> string \<Rightarrow> int \<Rightarrow> event list \<times> bool" where
  \<comment> \<open>lines 106-158; the child's output lines are printed stripped as they arrive\<close>
  "run_download env project_name analysis_id output_dir polling_interval =
     (let cmd = download_command env project_name analysis_id output_dir polling_interval;
          intro =
            [Print (CHR 0x0A # ''=== Step 3: Downloading Results ===''),
             Print (''Monitoring analysis '' @ analysis_id @ '' and downloading results...''),
             Run cmd]
      in
        (case run env cmd of
           Inl msg \<Rightarrow> (intro @ [PrintExc ''Error running download script: '' (Raised msg)], False)
         | Inr result \<Rightarrow>
             (let streamed = map (\<lambda>line. Print (py_strip line)) (stdout result)
              in
                if returncode result = 0
                then (intro @ streamed
                      @ [Print (CHR 0x0A # ''Workflow completed successfully!''),
                         Print (''Results downloaded to: '' @ output_dir)],
                      True)
                else (intro @ streamed
                      @ [Print (''Error downloading results: '' @ stderr result)],
                      False))))"

record workflow_args =
  input_folder :: string
  project_name :: string
  pipeline_name :: string
  output_dir :: string
  folder_name :: "string option"
  params_file :: "string option"
  analysis_name :: "string option"
  polling_interval :: int

definition cli_missing :: "event list" where
  "cli_missing =
     [Print ''Error: ICA CLI not found. Please install and configure the ICA CLI first.'',
      Print ''Installation instructions: https://help.ica.illumina.com/command-line/latest/install'']"

definition workflow_main :: "workflow_env \<Rightarrow> workflow_args \<Rightarrow> event list \<times> int" where
  \<comment> \<open>\<open>main\<close>, lines 160-208: the events and the exit code\<close>
  "workflow_main env args =
     (let probe = [Run [''ica'', ''--version'']] in
        if \<not> check_ica_cli (run env [''ica'', ''--version''])
        then (probe @ cli_missing, 1)
        else
          (case run_upload env (input_folder args) (project_name args) (folder_name args) of
             (t1, uploaded) \<Rightarrow>
               if \<not> opt_truthy uploaded
               then (probe @ t1 @ [Print ''Upload failed. Stopping workflow.''], 1)
               else
                 (case run_pipeline env (project_name args) (pipeline_name args) (the uploaded)
                         (params_file args) (analysis_name args) of
                    (t2, analysis_id) \<Rightarrow>
                      if \<not> opt_truthy analysis_id
                      then (probe @ t1 @ t2
                            @ [Print ''Pipeline start failed. Stopping workflow.''], 1)
                      else
                        (case run_download env (project_name args) (the analysis_id)
                                (output_dir args) (polling_interval args) of
                           (t3, success) \<Rightarrow>
                             (probe @ t1 @ t2 @ t3, if success then 0 else 1)))))"


section \<open>Waiting for an analysis and downloading its results (ica_cli_download.py)\<close>

definition status_command :: "string \<Rightarrow> string list" where
  "status_command analysis_id =
     [''ica'', ''pipelines'', ''history'', ''--analysis-id'', analysis_id, ''--output'', ''json'']"

definition output_folder_lookup :: "pyval \<Rightarrow> py_error + pyval" where
  \<comment> \<open>\<open>analysis.get('output', {}).get('folder', {}).get('id')\<close>, lines 70-71\<close>
  "output_folder_lookup analysis =
     (case py_get analysis ''output'' (PDict []) of
        Inl e \<Rightarrow> Inl e
      | Inr output \<Rightarrow>
          (case py_get output ''folder'' (PDict []) of
             Inl e \<Rightarrow> Inl e
           | Inr folder \<Rightarrow> py_get folder ''id'' PNone))"

definition get_analysis_status ::
  "string \<Rightarrow> json_stdout run_result \<Rightarrow> event list \<times> (pyval \<times> pyval)" where
  \<comment> \<open>lines 45-79; the second argument is the outcome of the status command. The inner
      handler catches KeyError and AttributeError, the only exceptions the lookup raises.\<close>
  "get_analysis_status analysis_id response =
     (let query = [Run (status_command analysis_id)] in
        (case response of
           Inl msg \<Rightarrow>
             (query @ [PrintExc ''Error checking analysis status: '' (Raised msg)], (PNone, PNone))
         | Inr result \<Rightarrow>
             if returncode result \<noteq> 0
             then (query @ [Print (''Error getting analysis status: '' @ stderr result)],
                   (PNone, PNone))
             else
               (case stdout result of
                  Inl msg \<Rightarrow>
                    (query @ [PrintExc ''Error checking analysis status: '' (Raised msg)],
                     (PNone, PNone))
                | Inr analysis \<Rightarrow>
                    (case py_get analysis ''status'' PNone of
                       Inl e \<Rightarrow>
                         (query @ [PrintExc ''Error checking analysis status: '' e],
                          (PNone, PNone))
                     | Inr status \<Rightarrow>
                         if status = PStr ''COMPLETED''
                         then
                           (case output_folder_lookup analysis of
                              Inl e \<Rightarrow>
                                (query
                                 @ [Print ''Warning: Could not find output folder ID in completed analysis''],
                                 (status, PNone))
                            | Inr output_folder_id \<Rightarrow> (query, (status, output_folder_id)))
                         else (query, (status, PNone))))))"

text \<open>
  The loop of \<open>wait_for_analysis\<close> (lines 93-108) has no bound. It is run against the
  answers the status command gives to the successive queries: the result is
  \<open>Some (Inr v)\<close> when the function returns \<open>v\<close> within these answers (Python's \<open>None\<close> is
  \<open>PNone\<close>), \<open>Some (Inl e)\<close> when the exception \<open>e\<close> leaves it, and \<open>None\<close> when the answers
  are used up and the function is still polling. The events up to that point are kept
  in each case. \<open>time.sleep\<close> raises ValueError for a negative number of seconds, and
  nothing in the function catches it.
\<close>

fun wait_loop ::
  "string \<Rightarrow> int \<Rightarrow> json_stdout run_result list \<Rightarrow> event list \<times> (py_error + pyval) option" where
  "wait_loop analysis_id poll_interval [] = ([], None)"
| "wait_loop analysis_id poll_interval (response # later) =
     (case get_analysis_status analysis_id response of
        (t, (status, folder_id)) \<Rightarrow>
          if status = PNone then (t, Some (Inr PNone))
          else if status = PStr ''COMPLETED''
          then (t @ [PrintVal ''Current status: '' status,
                     Print ''Analysis completed successfully!''],
                Some (Inr folder_id))
          else if status \<in> set [PStr ''FAILED'', PStr ''ABORTED'', PStr ''TERMINATED'']
          then (t @ [PrintVal ''Current status: '' status,
                     PrintVal ''Analysis ended with status: '' status],
                Some (Inr PNone))
          else if poll_interval < 0
          then (t @ [PrintVal ''Current status: '' status], Some (Inl ValueError))
          else
            (case wait_loop analysis_id poll_interval later of
               (t', r) \<Rightarrow>
                 (t @ [PrintVal ''Current status: '' status, Sleep poll_interval] @ t', r)))"

definition wait_for_analysis ::
  "string \<Rightarrow> int \<Rightarrow> json_stdout run_result list \<Rightarrow>
   event list \<times> (py_error + pyval) option" where
  \<comment> \<open>lines 81-108\<close>
  "wait_for_analysis analysis_id poll_interval responses =
     (case wait_loop analysis_id poll_interval responses of
        (t, r) \<Rightarrow> (Print (''Monitoring analysis '' @ analysis_id @ ''...'') # t, r))"

text \<open>
  \<open>download_folder\<close> (lines 110-146) and \<open>main\<close> (lines 148-190). The environment of the
  script: the outcome of the probe, of the project listing, of the successive status
  queries, of creating the output directory and of the download command.
\<close>

record download_env =
  probe_result :: "string list run_result"
  projects_result :: "json_stdout run_result"
  status_results :: "json_stdout run_result list"
  makedirs_result :: "string option"
  files_download_result :: "string list run_result"

record download_args =
  dl_project_name :: string
  dl_analysis_id :: string
  dl_output_dir :: string
  no_wait :: bool
  dl_polling_interval :: int

definition download_folder :: "download_env \<Rightarrow> pyval \<Rightarrow> pyval \<Rightarrow> string \<Rightarrow> event list \<times> bool" where
  "download_folder env project_id folder_id out_dir =
     (case makedirs_result env of
        Some msg \<Rightarrow> ([PrintExc ''Error during download: '' (Raised msg)], False)
      | None \<Rightarrow>
          (let cmd = [PStr ''ica'', PStr ''files'', PStr ''download'', PStr ''--project-id'',
                      project_id, PStr ''--data-ids'', folder_id, PStr ''--output-folder'',
                      PStr out_dir];
               intro = [Print (''Downloading results to: '' @ out_dir), RunV cmd]
           in
             (case files_download_result env of
                Inl msg \<Rightarrow> (intro @ [PrintExc ''Error during download: '' (Raised msg)], False)
              | Inr result \<Rightarrow>
                  if returncode result = 0
                  then (intro @ [Print ''Successfully downloaded results''], True)
                  else (intro @ [Print (''Error downloading results: '' @ stderr result)],
                        False))))"

definition finish_download ::
  "download_env \<Rightarrow> download_args \<Rightarrow> pyval \<Rightarrow> event list \<Rightarrow> pyval \<Rightarrow> event list \<times> int option" where
  \<comment> \<open>lines 184-190, after the folder identifier has been obtained\<close>
  "finish_download env args project_id before folder_id =
     (if \<not> truthy folder_id
      then (before @ [Print ''Could not get output folder ID''], Some 1)
      else
        (case download_folder env project_id folder_id (dl_output_dir args) of
           (t, success) \<Rightarrow> (before @ t, Some (if success then 0 else 1))))"

definition download_main :: "download_env \<Rightarrow> download_args \<Rightarrow> event list \<times> int option" where
  \<comment> \<open>the events and the exit code; \<open>None\<close> when the script is still polling\<close>
  "download_main env args =
     (let probe = [Run [''ica'', ''--version'']] in
        if \<not> check_ica_cli (probe_result env)
        then (probe @ cli_missing, Some 1)
        else
          (case get_project_id (projects_result env) (dl_project_name args) of
             (t1, project_id) \<Rightarrow>
               (let listed_projects =
                      probe @ [Run [''ica'', ''projects'', ''list'', ''--output'', ''json'']] @ t1
                in
                  if \<not> truthy project_id then (listed_projects, Some 1)
                  else if no_wait args
                  then
                    (case status_results env of
                       [] \<Rightarrow> (listed_projects, None)
                     | response # later \<Rightarrow>
                         (case get_analysis_status (dl_analysis_id args) response of
                            (t2, (status, folder_id)) \<Rightarrow>
                              if status \<noteq> PStr ''COMPLETED''
                              then (listed_projects @ t2
                                    @ [PrintVal ''Analysis is not complete (status: '' status,
                                       Print ''Use --no-wait flag only when analysis is already complete''],
                                    Some 1)
                              else finish_download env args project_id
                                     (listed_projects @ t2) folder_id))
                  else
                    (case wait_for_analysis (dl_analysis_id args) (dl_polling_interval args)
                            (status_results env) of
                       (t2, None) \<Rightarrow> (listed_projects @ t2, None)
                     | (t2, Some (Inl e)) \<Rightarrow> (listed_projects @ t2 @ [Traceback e], Some 1)
                     | (t2, Some (Inr folder_id)) \<Rightarrow>
                         finish_download env args project_id (listed_projects @ t2) folder_id))))"


section \<open>Notifications and the monitoring loops (ica_monitor.py)\<close>

record notification_config =
  email_to :: string
  smtp_host :: string
  smtp_port :: int
  smtp_user :: "string option"
  smtp_pass :: "string option"
  slack_webhook :: "string option"

text \<open>
  What the two channels answer to one notification: whether connecting to the SMTP
  server, logging in or sending raised, and whether importing \<open>requests\<close> or posting to
  the webhook raised (each with the exception's message).
\<close>

record channels =
  connect_error :: "string option"
  login_error :: "string option"
  send_error :: "string option"
  import_error :: "string option"
  post_error :: "string option"

definition send_email ::
  "notification_config \<Rightarrow> channels \<Rightarrow> string \<Rightarrow> string \<Rightarrow> event list \<times> py_error option" where
  \<comment> \<open>\<open>ICAMonitor._send_email\<close>, lines 62-73: no exception is handled here. The result is
      the exception that left the function, if any.\<close>
  "send_email config ch subject body =
     (let sender = (if opt_truthy (smtp_user config) then the (smtp_user config)
                    else ''ica-monitor@localhost'');
          connect = [SmtpConnect (smtp_host config) (smtp_port config)]
      in
        (case connect_error ch of
           Some msg \<Rightarrow> (connect, Some (Raised msg))
         | None \<Rightarrow>
             (let login =
                    (if opt_truthy (smtp_user config) \<and> opt_truthy (smtp_pass config)
                     then [SmtpLogin (the (smtp_user config)) (the (smtp_pass config))] else [])
              in
                if login \<noteq> [] \<and> login_error ch \<noteq> None
                then (connect @ login, Some (Raised (the (login_error ch))))
                else
                  (case send_error ch of
                     Some msg \<Rightarrow>
                       (connect @ login @ [SmtpSend sender (email_to config) subject body],
                        Some (Raised msg))
                   | None \<Rightarrow>
                       (connect @ login @ [SmtpSend sender (email_to config) subject body],
                        None)))))"

definition send_slack ::
  "notification_config \<Rightarrow> channels \<Rightarrow> string \<Rightarrow> event list \<times> py_error option" where
  \<comment> \<open>\<open>ICAMonitor._send_slack\<close>, lines 75-85: the \<open>import\<close> stands before the \<open>try\<close>\<close>
  "send_slack config ch message =
     (if \<not> opt_truthy (slack_webhook config) then ([], None)
      else
        (case import_error ch of
           Some msg \<Rightarrow> ([], Some (Raised msg))
         | None \<Rightarrow>
             (case post_error ch of
                Some msg \<Rightarrow>
                  ([SlackPost (the (slack_webhook config)) message,
                    LogExc ''Failed to send Slack notification: '' (Raised msg)],
                   None)
              | None \<Rightarrow> ([SlackPost (the (slack_webhook config)) message], None))))"

definition send_notifications ::
  "notification_config \<Rightarrow> channels \<Rightarrow> string \<Rightarrow> string \<Rightarrow> event list \<times> py_error option" where
  \<comment> \<open>the two statements every notifying place of the monitors runs (lines 100-101,
      110-111, 128-129, 145-146, 162-163, 173-174):
      \<open>self._send_email(subject, msg); self._send_slack(msg)\<close>\<close>
  "send_notifications config ch subject msg =
     (case send_email config ch subject msg of
        (t, Some e) \<Rightarrow> (t, Some e)
      | (t, None) \<Rightarrow> (case send_slack config ch msg of (t', r) \<Rightarrow> (t @ t', r)))"

text \<open>
  One pass of a monitoring loop sees one tick of the environment: the outcome of the
  status command, the channels' answers, and the reading taken from the command's
  output. The readings are floating-point computations (\<open>used / total * 100 >= threshold\<close>
  after parsing the \<open>Used:\<close> and \<open>Total:\<close> lines; \<open>float(total_cost) >= budget\<close> after
  decoding the JSON output) and are not modelled: the tick says which exception reading
  the output raised, or whether the comparison held and which alert text was formatted.
\<close>

datatype reading = Unreadable py_error | Usage bool string

record tick =
  poll :: "string list run_result"
  measured :: reading
  answers :: channels

datatype loop_state = Polling | Crashed py_error

text \<open>
  \<open>monitor_storage\<close> (lines 116-148) and \<open>monitor_costs\<close> (lines 150-176) are the same loop
  with other texts: \<open>while True\<close> with no \<open>break\<close> and no \<open>return\<close>, left only by an
  exception (among them the ValueError of \<open>time.sleep\<close> for a negative interval). The loop is run against the ticks of its successive passes; \<open>Polling\<close> says
  that the ticks are used up and the loop is still running.
\<close>

fun monitor_loop ::
  "string list \<Rightarrow> string \<Rightarrow> string \<Rightarrow> string \<Rightarrow> notification_config \<Rightarrow> int \<Rightarrow> tick list \<Rightarrow>
   event list \<times> loop_state" where
  "monitor_loop cmd failure error_subject alert_subject config check_interval [] = ([], Polling)"
| "monitor_loop cmd failure error_subject alert_subject config check_interval (now # later) =
     (case poll now of
        Inl msg \<Rightarrow> ([Run cmd], Crashed (Raised msg))
      | Inr result \<Rightarrow>
          if returncode result \<noteq> 0
          then
            (let error_msg = failure @ stderr result in
               (case send_notifications config (answers now) error_subject error_msg of
                  (t, Some e) \<Rightarrow> ([Run cmd, LogError error_msg] @ t, Crashed e)
                | (t, None) \<Rightarrow>
                    \<comment> \<open>\<open>continue\<close>: the next pass starts at once\<close>
                    (case monitor_loop cmd failure error_subject alert_subject config
                            check_interval later of
                       (t', s) \<Rightarrow> ([Run cmd, LogError error_msg] @ t @ t', s))))
          else
            (case measured now of
               Unreadable e \<Rightarrow> ([Run cmd], Crashed e)
             | Usage over msg \<Rightarrow>
                 if over
                 then
                   (case send_notifications config (answers now) alert_subject msg of
                      (t, Some e) \<Rightarrow> ([Run cmd, LogWarning msg] @ t, Crashed e)
                    | (t, None) \<Rightarrow>
                        if check_interval < 0
                        then ([Run cmd, LogWarning msg] @ t, Crashed ValueError)
                        else
                          (case monitor_loop cmd failure error_subject alert_subject config
                                  check_interval later of
                             (t', s) \<Rightarrow>
                               ([Run cmd, LogWarning msg] @ t @ [Sleep check_interval] @ t', s)))
                 else if check_interval < 0 then ([Run cmd], Crashed ValueError)
                 else
                   (case monitor_loop cmd failure error_subject alert_subject config
                           check_interval later of
                      (t', s) \<Rightarrow> ([Run cmd, Sleep check_interval] @ t', s))))"

definition monitor_storage ::
  "string \<Rightarrow> notification_config \<Rightarrow> string \<Rightarrow> int \<Rightarrow> tick list \<Rightarrow> event list \<times> loop_state" where
  \<comment> \<open>\<open>threshold_text\<close> is the threshold as the start message formats it\<close>
  "monitor_storage project config threshold_text check_interval ticks =
     (case monitor_loop [''ica'', ''projects'', ''storage'', project]
             ''Failed to get storage info: '' ''Storage Monitoring Error'' ''Storage Usage Alert''
             config check_interval ticks of
        (t, s) \<Rightarrow>
          (LogInfo (''Starting storage monitoring (threshold: '' @ threshold_text @ ''%)'') # t, s))"

definition monitor_costs ::
  "string \<Rightarrow> notification_config \<Rightarrow> string \<Rightarrow> int \<Rightarrow> tick list \<Rightarrow> event list \<times> loop_state" where
  "monitor_costs project config threshold_text check_interval ticks =
     (case monitor_loop [''ica'', ''projects'', ''costs'', project]
             ''Failed to get cost info: '' ''Cost Monitoring Error'' ''Cost Alert''
             config check_interval ticks of
        (t, s) \<Rightarrow>
          (LogInfo (''Starting cost monitoring (threshold: $'' @ threshold_text @ '')'') # t, s))"


text \<open>
  The vocabulary of the claim about resolution: the name and the identifier an entry of
  the listing carries, an entry that has both, and an entry whose name is the requested
  one up to the case of its letters.
\<close>

definition entry_name :: "pyval \<Rightarrow> string option" where
  "entry_name e =
     (case e of
        PDict kvs \<Rightarrow> (case map_of kvs ''name'' of Some (PStr n) \<Rightarrow> Some n | _ \<Rightarrow> None)
      | _ \<Rightarrow> None)"

definition entry_id :: "pyval \<Rightarrow> pyval option" where
  "entry_id e = (case e of PDict kvs \<Rightarrow> map_of kvs ''id'' | _ \<Rightarrow> None)"

definition listed :: "pyval \<Rightarrow> bool" where
  "listed e = (entry_name e \<noteq> None \<and> entry_id e \<noteq> None)"

definition ascii_named :: "pyval \<Rightarrow> bool" where
  "ascii_named e = (case entry_name e of None \<Rightarrow> False | Some n \<Rightarrow> is_ascii n)"

definition same_name :: "string \<Rightarrow> pyval \<Rightarrow> bool" where
  "same_name wanted e =
     (case entry_name e of None \<Rightarrow> False | Some n \<Rightarrow> py_lower n = py_lower wanted)"

definition listing_ok :: "pyval list \<Rightarrow> json_stdout run_result" where
  \<comment> \<open>the listing command exits with 0 and prints a JSON array of the entries\<close>
  "listing_ok entries = Inr \<lparr>returncode = 0, stdout = Inr (PList entries), stderr = []\<rparr>"

definition resolve :: "string \<Rightarrow> pyval list \<Rightarrow> pyval option" where
  \<comment> \<open>the identifier of the first entry whose name is the wanted one, ignoring case\<close>
  "resolve wanted entries =
     (case find (same_name wanted) entries of None \<Rightarrow> None | Some e \<Rightarrow> entry_id e)"

definition demo_listing :: "pyval list" where
  "demo_listing =
     [PDict [(''id'', PStr ''p1''), (''name'', PStr ''Alpha'')],
      PDict [(''id'', PStr ''p2''), (''name'', PStr ''DEMO'')],
      PDict [(''id'', PStr ''p3''), (''name'', PStr ''demo'')]]"

text \<open>
  The vocabulary of the claim about the parameter generator: the custom parameters of a
  work item (none when the row has no \<open>custom_params\<close> entry or an empty cell there, the
  entries of the mapping when it has one; any other value is not a work item's), and the names of the four
  germline flags and of the three base keys.
\<close>

definition custom_entries :: "(string \<times> sval) list \<Rightarrow> (string \<times> sval) list option" where
  "custom_entries kvs =
     (case map_of kvs ''custom_params'' of
        None \<Rightarrow> Some []
      | Some (SMap c) \<Rightarrow> Some c
      | Some (SStr s) \<Rightarrow> if s = [] then Some [] else None
      | Some _ \<Rightarrow> None)"

definition germline_flags :: "string list" where
  "germline_flags =
     [''enable-map-align'', ''enable-sort'', ''enable-duplicate-marking'',
      ''enable-variant-caller'']"

definition base_keys :: "string set" where
  "base_keys = {''sample-id'', ''reference-tar'', ''output-directory''}"

definition known_pipelines :: "sval set" where
  "known_pipelines = {SStr ''dragen-germline'', SStr ''dragen-rna'', SStr ''dragen-enrichment''}"

definition germline_row :: "(string \<times> sval) list" where
  "germline_row =
     [(''sample_id'', SStr ''S1''), (''data_folder'', SStr ''/data/S1''),
      (''pipeline'', SStr ''dragen-germline''), (''reference'', SStr ''hg38''),
      (''custom_params'', SMap [(''enable-sort'', SBool False), (''read-trimmers'', SStr ''polyg'')])]"

text \<open>
  The two layers under the custom parameters, named for the proofs: the base set and
  the additions of the sample's pipeline.
\<close>

definition base_layer :: "sval \<Rightarrow> string \<Rightarrow> params" where
  "base_layer sid r =
     [''sample-id'' \<mapsto> sid,
      ''reference-tar'' \<mapsto> SStr (''/reference-data/'' @ r @ ''/'' @ r @ ''.fa''),
      ''output-directory'' \<mapsto> SStr ''/output'']"

definition type_layer :: "sval \<Rightarrow> string \<Rightarrow> sval \<Rightarrow> params" where
  "type_layer p r bed =
     (if p = SStr ''dragen-germline'' then
        [''enable-map-align'' \<mapsto> SBool True,
         ''enable-sort'' \<mapsto> SBool True,
         ''enable-duplicate-marking'' \<mapsto> SBool True,
         ''enable-variant-caller'' \<mapsto> SBool True]
      else if p = SStr ''dragen-rna'' then
        [''enable-rna'' \<mapsto> SBool True,
         ''enable-rna-quantification'' \<mapsto> SBool True,
         ''annotation-file'' \<mapsto> SStr (''/reference-data/'' @ r @ ''/genes.gtf'')]
      else if p = SStr ''dragen-enrichment'' then
        [''enable-map-align'' \<mapsto> SBool True,
         ''enable-variant-caller'' \<mapsto> SBool True,
         ''vc-target-bed'' \<mapsto> bed,
         ''vc-target-bed-padding'' \<mapsto> SInt 100]
      else Map.empty)"

text \<open>
  The vocabulary of the claims about a batch: a row from which the sample's identity can
  be read, an environment in which the output directory and the two output files can be
  written, and the work-item result recorded for a failure.
\<close>

definition has_sample_id :: "sval \<Rightarrow> bool" where
  "has_sample_id sample =
     (case row_getitem sample ''sample_id'' of Inl e \<Rightarrow> False | Inr sid \<Rightarrow> True)"

definition outputs_writable :: "batch_env \<Rightarrow> bool" where
  "outputs_writable env =
     (write_file env ''batch_results'' = None
      \<and> write_file env ''batch_results/results.json'' = None
      \<and> write_file env ''batch_results/summary.json'' = None)"

definition failed_result :: "sval \<Rightarrow> py_error \<Rightarrow> string \<Rightarrow> work_item_result" where
  "failed_result sid e ts =
     \<lparr>wi_sample_id = sid, wi_status = ''failed'', wi_error = Some e, wi_timestamp = ts\<rparr>"

text \<open>
  A small batch for the examples: three well-formed rows, and environments in which the
  upload command exits with \<open>up\<close> and the pipeline command with \<open>pl\<close>. In \<open>one_bad bad\<close>
  the pipeline command of the sample at position \<open>bad\<close> exits with 1 and every other
  command with 0; in \<open>all_fail\<close> every command of every sample exits with 1.
\<close>

definition demo_row :: "string \<Rightarrow> sval" where
  "demo_row name =
     SMap [(''sample_id'', SStr name), (''data_folder'', SStr (''/data/'' @ name)),
           (''pipeline'', SStr ''dragen-germline''), (''reference'', SStr ''hg38'')]"

definition demo_samples :: "sval list" where
  "demo_samples = [demo_row ''A'', demo_row ''B'', demo_row ''C'']"

definition exits_with :: "int \<Rightarrow> int \<Rightarrow> item_env" where
  "exits_with up pl =
     \<lparr>run_cmd =
        (\<lambda>cmd. Inr \<lparr>returncode = (if cmd ! 1 = SStr ''ica_cli_upload.py'' then up else pl),
                     stdout = [], stderr = ''boom''\<rparr>),
      dump_params = (\<lambda>file. None),
      clock = ''2024-01-01T00:00:00'',
      py_str = (\<lambda>v. [])\<rparr>"

definition one_bad :: "nat \<Rightarrow> batch_env" where
  "one_bad bad =
     \<lparr>item_envs = (\<lambda>i. if i = bad then exits_with 0 1 else exits_with 0 0),
      summary_clock = ''2024-01-01T00:00:01'',
      write_file = (\<lambda>path. None)\<rparr>"

definition all_fail :: batch_env where
  "all_fail =
     \<lparr>item_envs = (\<lambda>i. exits_with 1 1),
      summary_clock = ''2024-01-01T00:00:01'',
      write_file = (\<lambda>path. None)\<rparr>"

definition upload_cmd_of :: "string \<Rightarrow> string \<Rightarrow> sval list" where
  "upload_cmd_of pn name =
     [SStr ''python'', SStr ''ica_cli_upload.py'', SStr (''/data/'' @ name), SStr pn,
      SStr ''--folder-name'', SStr name]"

definition pipeline_cmd_of :: "string \<Rightarrow> string \<Rightarrow> sval list" where
  "pipeline_cmd_of pn name =
     [SStr ''python'', SStr ''ica_cli_workflow.py'', SStr (''/data/'' @ name), SStr pn,
      SStr ''dragen-germline'', SStr (''./results/'' @ name), SStr ''--params-file'',
      SStr (name @ ''_params.json'')]"

definition nameless_row :: sval where
  \<comment> \<open>a row of a sheet whose identity column has another name\<close>
  "nameless_row =
     SMap [(''id'', SStr ''A''), (''data_folder'', SStr ''/data/A''),
           (''pipeline'', SStr ''dragen-germline''), (''reference'', SStr ''hg38'')]"

text \<open>
  The vocabulary of the claim about the stages: the commands a trace ran, in order; and
  for the examples an environment of the workflow in which the upload succeeds and the
  pipeline script exits with 1.
\<close>

fun runs_of :: "event list \<Rightarrow> string list list" where
  "runs_of [] = []"
| "runs_of (Run cmd # rest) = cmd # runs_of rest"
| "runs_of (other # rest) = runs_of rest"

definition submit_fails :: workflow_env where
  "submit_fails =
     \<lparr>executable = ''python3'',
      script_path = (\<lambda>name. ''/opt/ica/'' @ name),
      run = (\<lambda>cmd. Inr \<lparr>returncode = (if cmd ! 1 = ''/opt/ica/ica_cli_pipeline.py'' then 1 else 0),
                        stdout = [], stderr = ''no such pipeline''\<rparr>)\<rparr>"

definition demo_args :: workflow_args where
  "demo_args =
     \<lparr>input_folder = ''/data/run1/'', project_name = ''proj'', pipeline_name = ''germline'',
      output_dir = ''out'', folder_name = None, params_file = None, analysis_name = None,
      polling_interval = 60\<rparr>"

text \<open>
  The vocabulary of the claims about the status poller: a status query that succeeds
  with a decoded document; the document of a run in a given status; the document of a
  completed run with an output folder; and the output location identifier a document
  carries, which is present when \<open>output.folder.id\<close> exists and is not null.
\<close>

definition answer :: "pyval \<Rightarrow> json_stdout run_result" where
  "answer doc = Inr \<lparr>returncode = 0, stdout = Inr doc, stderr = []\<rparr>"


definition status_is :: "string \<Rightarrow> json_stdout run_result" where
  "status_is s = answer (PDict [(''status'', PStr s)])"

definition completed_with :: "string \<Rightarrow> json_stdout run_result" where
  "completed_with folder_id =
     answer (PDict [(''status'', PStr ''COMPLETED''),
                    (''output'', PDict [(''folder'', PDict [(''id'', PStr folder_id)])])])"

definition folder_id_of :: "(string \<times> pyval) list \<Rightarrow> pyval option" where
  "folder_id_of kvs =
     (case map_of kvs ''output'' of
        Some (PDict output) \<Rightarrow>
          (case map_of output ''folder'' of
             Some (PDict folder) \<Rightarrow>
               (case map_of folder ''id'' of
                  None \<Rightarrow> None
                | Some v \<Rightarrow> if v = PNone then None else Some v)
           | _ \<Rightarrow> None)
      | _ \<Rightarrow> None)"

fun is_download :: "event \<Rightarrow> bool" where
  "is_download (RunV cmd) = True"
| "is_download other = False"

definition no_folder_env :: download_env where
  \<comment> \<open>the run is reported completed, with no output in the document\<close>
  "no_folder_env =
     \<lparr>probe_result = Inr \<lparr>returncode = 0, stdout = [], stderr = []\<rparr>,
      projects_result = answer (PList [PDict [(''id'', PStr ''p1''), (''name'', PStr ''Demo'')]]),
      status_results = [status_is ''COMPLETED''],
      makedirs_result = None,
      files_download_result = Inr \<lparr>returncode = 0, stdout = [], stderr = []\<rparr>\<rparr>"

definition no_folder_args :: download_args where
  "no_folder_args =
     \<lparr>dl_project_name = ''demo'', dl_analysis_id = ''a1'', dl_output_dir = ''out'',
      no_wait = False, dl_polling_interval = 60\<rparr>"

text \<open>
  For the examples about the monitors: a configuration with a mail server and a chat
  webhook, channels that all deliver, channels whose mail server refuses the connection,
  a pass whose status command exits with 1, and a pass whose reading is under the
  threshold.
\<close>

definition both_channels :: notification_config where
  "both_channels =
     \<lparr>email_to = ''ops@example.org'', smtp_host = ''localhost'', smtp_port = 25,
      smtp_user = None, smtp_pass = None,
      slack_webhook = Some ''https://hooks.example.org/T1''\<rparr>"

definition delivering :: channels where
  "delivering =
     \<lparr>connect_error = None, login_error = None, send_error = None, import_error = None,
      post_error = None\<rparr>"

definition mail_refused :: channels where
  "mail_refused = delivering\<lparr>connect_error := Some ''Connection refused''\<rparr>"

definition failed_poll :: tick where
  "failed_poll =
     \<lparr>poll = Inr \<lparr>returncode = 1, stdout = [], stderr = ''unreachable''\<rparr>,
      measured = Usage False [], answers = delivering\<rparr>"

definition quiet_poll :: tick where
  "quiet_poll =
     \<lparr>poll = Inr \<lparr>returncode = 0, stdout = [''Used: 10GB'', ''Total: 100GB''], stderr = []\<rparr>,
      measured = Usage False [], answers = delivering\<rparr>"

fun sleeps_of :: "event list \<Rightarrow> int list" where
  "sleeps_of [] = []"
| "sleeps_of (Sleep n # rest) = n # sleeps_of rest"
| "sleeps_of (other # rest) = sleeps_of rest"

text \<open>
  A pass in which nothing raises: the status command returns, the reading can be taken
  when the command succeeded, and no channel raises out of the notification.
\<close>

definition delivers :: "channels \<Rightarrow> bool" where
  "delivers ch =
     (connect_error ch = None \<and> login_error ch = None \<and> send_error ch = None
      \<and> import_error ch = None)"

definition calm :: "tick \<Rightarrow> bool" where
  "calm now =
     (delivers (answers now)
      \<and> (case poll now of
            Inl msg \<Rightarrow> False
          | Inr result \<Rightarrow>
              returncode result \<noteq> 0
              \<or> (case measured now of Unreadable e \<Rightarrow> False | Usage over msg \<Rightarrow> True)))"

definition succeeded :: "tick \<Rightarrow> bool" where
  "succeeded now = (case poll now of Inl msg \<Rightarrow> False | Inr result \<Rightarrow> returncode result = 0)"

section \<open>Name resolution ignores case\<close>

lemma find_by_name_resolve:
  "list_all listed entries \<Longrightarrow> find_by_name entries wanted = Inr (resolve wanted entries)"
proof (induction entries)
  case Nil
  then show ?case by (simp add: resolve_def)
next
  case (Cons e es)
  from Cons.prems have "listed e" and rest: "list_all listed es" by simp_all
  then obtain kvs n i where e: "e = PDict kvs" and n: "map_of kvs ''name'' = Some (PStr n)"
    and i: "map_of kvs ''id'' = Some i"
    by (auto simp: listed_def entry_name_def entry_id_def split: pyval.splits option.splits)
  show ?case
    using Cons.IH [OF rest] e n i
    by (simp add: py_getitem_def str_lower_def same_name_def entry_name_def entry_id_def
        resolve_def)
qed

lemma lower_char_idem: "lower_char (lower_char c) = lower_char c"
  by (simp add: lower_char_def)

lemma py_lower_idem: "py_lower (py_lower s) = py_lower s"
  by (simp add: py_lower_def lower_char_idem)

lemma same_name_lower: "same_name (py_lower wanted) e = same_name wanted e"
  by (simp add: same_name_def py_lower_idem split: option.splits)

text \<open>
  Claim C10. Resolving a project or a pipeline name compares names without regard to
  case. For ASCII names (the requested one and those of the listing), when the listing
  succeeds and every entry carries a name and an identifier,
  \<open>get_project_id\<close> and \<open>get_pipeline_id\<close> return the identifier of the first entry
  whose lower-cased name equals the lower-cased requested name, and report not-found
  (the message and \<open>None\<close>) when there is no such entry; the requested name and its
  lower-cased form resolve alike.
\<close>

theorem name_resolution_ignores_case:
  assumes "list_all listed entries"
      and "list_all ascii_named entries"
      and "is_ascii wanted"
  shows "get_project_id (listing_ok entries) wanted =
           (case resolve wanted entries of
              Some i \<Rightarrow> ([], i)
            | None \<Rightarrow> ([Print (''Project '' @ quote wanted @ '' not found'')], PNone))
       \<and> get_pipeline_id (listing_ok entries) project_id wanted =
           (case resolve wanted entries of
              Some i \<Rightarrow> ([], i)
            | None \<Rightarrow> ([Print (''Pipeline '' @ quote wanted @ '' not found in project'')], PNone))
       \<and> resolve (py_lower wanted) entries = resolve wanted entries"
proof -
  have loop: "find_by_name entries wanted = Inr (resolve wanted entries)"
    using assms(1) by (rule find_by_name_resolve)
  have a: "get_project_id (listing_ok entries) wanted =
           (case resolve wanted entries of
              Some i \<Rightarrow> ([], i)
            | None \<Rightarrow> ([Print (''Project '' @ quote wanted @ '' not found'')], PNone))"
    by (simp add: get_project_id_def listing_ok_def py_iter_def loop split: option.splits)
  have b: "get_pipeline_id (listing_ok entries) project_id wanted =
           (case resolve wanted entries of
              Some i \<Rightarrow> ([], i)
            | None \<Rightarrow> ([Print (''Pipeline '' @ quote wanted @ '' not found in project'')], PNone))"
    by (simp add: get_pipeline_id_def listing_ok_def py_iter_def loop split: option.splits)
  have c: "resolve (py_lower wanted) entries = resolve wanted entries"
    by (simp add: resolve_def same_name_lower [abs_def])
  from a b c show ?thesis by simp
qed

theorem name_resolution_ignores_case_witness:
  "get_project_id (listing_ok demo_listing) ''Demo'' = ([], PStr ''p2'')
   \<and> get_pipeline_id (listing_ok demo_listing) ''p1'' ''dEMO'' = ([], PStr ''p2'')
   \<and> get_project_id (listing_ok demo_listing) ''Beta'' =
       ([Print (''Project '' @ quote ''Beta'' @ '' not found'')], PNone)"
proof -
  have wf: "list_all listed demo_listing"
    by (simp add: demo_listing_def listed_def entry_name_def entry_id_def)
  have r1: "resolve ''Demo'' demo_listing = Some (PStr ''p2'')"
    by (simp add: resolve_def demo_listing_def same_name_def entry_name_def entry_id_def
        py_lower_def lower_char_def)
  have r2: "resolve ''dEMO'' demo_listing = Some (PStr ''p2'')"
    by (simp add: resolve_def demo_listing_def same_name_def entry_name_def entry_id_def
        py_lower_def lower_char_def)
  have r3: "resolve ''Beta'' demo_listing = None"
    by (simp add: resolve_def demo_listing_def same_name_def entry_name_def entry_id_def
        py_lower_def lower_char_def)
  have an: "list_all ascii_named demo_listing"
    by (simp add: demo_listing_def ascii_named_def entry_name_def is_ascii_def)
  have a1: "is_ascii ''Demo''" and a2: "is_ascii ''dEMO''" and a3: "is_ascii ''Beta''"
    by (simp_all add: is_ascii_def)
  show ?thesis
    using name_resolution_ignores_case [OF wf an a1, of "''p1''"]
      name_resolution_ignores_case [OF wf an a2, of "''p1''"]
      name_resolution_ignores_case [OF wf an a3, of "''p1''"]
    by (simp add: r1 r2 r3)
qed

section \<open>The parameter generator\<close>

lemma generate_params_layers:
  assumes sid: "map_of kvs ''sample_id'' = Some sid"
      and ref: "map_of kvs ''reference'' = Some (SStr ref)"
      and pip: "map_of kvs ''pipeline'' = Some pipeline"
      and cus: "custom_entries kvs = Some cp"
  shows "generate_params fmt (SMap kvs) =
           Inr ((base_layer sid ref ++
                 type_layer pipeline ref
                   (case map_of kvs ''target_bed'' of None \<Rightarrow> SNone | Some b \<Rightarrow> b)) ++
                map_of cp)"
proof -
  have c: "(map_of kvs ''custom_params'' = None \<and> cp = []) \<or>
           (map_of kvs ''custom_params'' = Some (SStr []) \<and> cp = []) \<or>
           map_of kvs ''custom_params'' = Some (SMap cp)"
    using cus by (auto simp: custom_entries_def split: option.splits sval.splits if_splits)
  have u: "dict_update m (SMap cp) = Inr (m ++ map_of cp)" for m
    by (simp add: dict_update_def)
  have v: "dict_update m (SStr []) = Inr m" for m
    by (simp add: dict_update_def)
  have e: "m ++ map_of [] = m" for m :: params
    by simp
  from c show ?thesis
  proof (elim disjE)
    assume a: "map_of kvs ''custom_params'' = None \<and> cp = []"
    show ?thesis
      unfolding generate_params_def base_layer_def [symmetric] type_layer_def format_value_def Let_def
      by (simp only: sval.case option.case sid ref pip a e if_distrib [of "\<lambda>m. Inr m"]
          if_distrib [of "\<lambda>m. m ++ _"] if_distrib [of "\<lambda>m. _ ++ m"] map_add_empty)
  next
    assume a: "map_of kvs ''custom_params'' = Some (SStr []) \<and> cp = []"
    show ?thesis
      unfolding generate_params_def base_layer_def [symmetric] type_layer_def format_value_def Let_def
      by (simp only: sval.case option.case sid ref pip a e v
          if_distrib [of "\<lambda>m. dict_update m _"] if_distrib [of "\<lambda>m. Inr m"]
          if_distrib [of "\<lambda>m. m ++ _"] if_distrib [of "\<lambda>m. _ ++ m"] map_add_empty)
  next
    assume a: "map_of kvs ''custom_params'' = Some (SMap cp)"
    show ?thesis
      unfolding generate_params_def base_layer_def [symmetric] type_layer_def format_value_def Let_def
      by (simp only: sval.case option.case sid ref pip a u
          if_distrib [of "\<lambda>m. dict_update m _"] if_distrib [of "\<lambda>m. Inr m"]
          if_distrib [of "\<lambda>m. m ++ _"] if_distrib [of "\<lambda>m. _ ++ m"] map_add_empty)
  qed
qed

lemma base_layer_dom: "dom (base_layer sid r) = base_keys"
  by (simp add: base_layer_def base_keys_def insert_commute)

lemma base_layer_values:
  "base_layer sid r ''sample-id'' = Some sid"
  "base_layer sid r ''reference-tar'' = Some (SStr (''/reference-data/'' @ r @ ''/'' @ r @ ''.fa''))"
  "base_layer sid r ''output-directory'' = Some (SStr ''/output'')"
  by (simp_all add: base_layer_def)

lemma type_layer_base:
  "type_layer p r bed ''sample-id'' = None"
  "type_layer p r bed ''reference-tar'' = None"
  "type_layer p r bed ''output-directory'' = None"
  by (simp_all add: type_layer_def)

lemma type_layer_germline:
  "type_layer (SStr ''dragen-germline'') r bed ''enable-map-align'' = Some (SBool True)"
  "type_layer (SStr ''dragen-germline'') r bed ''enable-sort'' = Some (SBool True)"
  "type_layer (SStr ''dragen-germline'') r bed ''enable-duplicate-marking'' = Some (SBool True)"
  "type_layer (SStr ''dragen-germline'') r bed ''enable-variant-caller'' = Some (SBool True)"
  by (simp_all add: type_layer_def)

lemma type_layer_rna:
  "type_layer (SStr ''dragen-rna'') r bed ''annotation-file'' =
     Some (SStr (''/reference-data/'' @ r @ ''/genes.gtf''))"
  by (simp add: type_layer_def)

lemma type_layer_unknown: "p \<notin> known_pipelines \<Longrightarrow> type_layer p r bed = Map.empty"
  by (simp add: type_layer_def known_pipelines_def)

text \<open>
  Claim C6. The parameter generator is total on work items and layered. For a row with
  a sample id, a reference name and a pipeline, whose custom parameters are absent, an
  empty cell or a mapping, \<open>_generate_params\<close> returns a dictionary (it does not raise) that has the three
  base keys; every custom parameter is in it with the custom value (the custom
  parameters are merged last); a key the custom parameters do not name has the
  generated value: the sample id, the reference path and the output location built
  from the row, for \<open>dragen-germline\<close> the four flags set to true, for \<open>dragen-rna\<close> the
  annotation file under the reference's directory; and for a pipeline that is none of
  the three known ones the keys are the base keys and the custom ones only.
\<close>

theorem generate_params_total_layered:
  assumes sid: "map_of kvs ''sample_id'' = Some sid"
      and ref: "map_of kvs ''reference'' = Some (SStr ref)"
      and pip: "map_of kvs ''pipeline'' = Some pipeline"
      and cus: "custom_entries kvs = Some cp"
  shows "\<exists>ps. generate_params fmt (SMap kvs) = Inr ps
           \<and> base_keys \<subseteq> dom ps
           \<and> (\<forall>k v. map_of cp k = Some v \<longrightarrow> ps k = Some v)
           \<and> (map_of cp ''sample-id'' = None \<longrightarrow> ps ''sample-id'' = Some sid)
           \<and> (map_of cp ''reference-tar'' = None \<longrightarrow>
                ps ''reference-tar'' = Some (SStr (''/reference-data/'' @ ref @ ''/'' @ ref @ ''.fa'')))
           \<and> (map_of cp ''output-directory'' = None \<longrightarrow>
                ps ''output-directory'' = Some (SStr ''/output''))
           \<and> (pipeline = SStr ''dragen-germline'' \<longrightarrow>
                (\<forall>f\<in>set germline_flags. map_of cp f = None \<longrightarrow> ps f = Some (SBool True)))
           \<and> (pipeline = SStr ''dragen-rna'' \<longrightarrow> map_of cp ''annotation-file'' = None \<longrightarrow>
                ps ''annotation-file'' = Some (SStr (''/reference-data/'' @ ref @ ''/genes.gtf'')))
           \<and> (pipeline \<notin> known_pipelines \<longrightarrow> dom ps = base_keys \<union> fst ` set cp)"
proof -
  define bed where "bed = (case map_of kvs ''target_bed'' of None \<Rightarrow> SNone | Some b \<Rightarrow> b)"
  define ps where "ps = (base_layer sid ref ++ type_layer pipeline ref bed) ++ map_of cp"
  have run: "generate_params fmt (SMap kvs) = Inr ps"
    unfolding ps_def bed_def using sid ref pip cus by (rule generate_params_layers)
  have look: "ps k = (case map_of cp k of
                        Some v \<Rightarrow> Some v
                      | None \<Rightarrow> (case type_layer pipeline ref bed k of
                                   Some v \<Rightarrow> Some v
                                 | None \<Rightarrow> base_layer sid ref k))" for k
    by (simp add: ps_def map_add_def split: option.splits)
  have custom: "\<forall>k v. map_of cp k = Some v \<longrightarrow> ps k = Some v"
    by (simp add: look)
  have keys: "dom ps = base_keys \<union> dom (type_layer pipeline ref bed) \<union> fst ` set cp"
    by (auto simp: ps_def base_layer_dom dom_map_of_conv_image_fst)
  have base: "base_keys \<subseteq> dom ps"
    using keys by blast
  have b1: "map_of cp ''sample-id'' = None \<longrightarrow> ps ''sample-id'' = Some sid"
    by (simp add: look type_layer_base base_layer_values)
  have b2: "map_of cp ''reference-tar'' = None \<longrightarrow>
            ps ''reference-tar'' = Some (SStr (''/reference-data/'' @ ref @ ''/'' @ ref @ ''.fa''))"
    by (simp add: look type_layer_base base_layer_values)
  have b3: "map_of cp ''output-directory'' = None \<longrightarrow>
            ps ''output-directory'' = Some (SStr ''/output'')"
    by (simp add: look type_layer_base base_layer_values)
  have g: "pipeline = SStr ''dragen-germline'' \<longrightarrow>
           (\<forall>f\<in>set germline_flags. map_of cp f = None \<longrightarrow> ps f = Some (SBool True))"
    by (simp add: look germline_flags_def type_layer_germline)
  have r: "pipeline = SStr ''dragen-rna'' \<longrightarrow> map_of cp ''annotation-file'' = None \<longrightarrow>
           ps ''annotation-file'' = Some (SStr (''/reference-data/'' @ ref @ ''/genes.gtf''))"
    by (simp add: look type_layer_rna)
  have u: "pipeline \<notin> known_pipelines \<longrightarrow> dom ps = base_keys \<union> fst ` set cp"
    by (simp add: keys type_layer_unknown)
  show ?thesis
    by (rule exI [of _ ps]) (intro conjI run base custom b1 b2 b3 g r u)
qed

theorem generate_params_total_layered_witness:
  "\<exists>ps. generate_params (\<lambda>v. []) (SMap germline_row) = Inr ps
     \<and> ps ''sample-id'' = Some (SStr ''S1'')
     \<and> ps ''reference-tar'' = Some (SStr ''/reference-data/hg38/hg38.fa'')
     \<and> ps ''output-directory'' = Some (SStr ''/output'')
     \<and> ps ''enable-map-align'' = Some (SBool True)
     \<and> ps ''enable-sort'' = Some (SBool False)
     \<and> ps ''read-trimmers'' = Some (SStr ''polyg'')"
proof -
  define cp where "cp = [(''enable-sort'', SBool False), (''read-trimmers'', SStr ''polyg'')]"
  have sid: "map_of germline_row ''sample_id'' = Some (SStr ''S1'')"
    by (simp add: germline_row_def)
  have ref: "map_of germline_row ''reference'' = Some (SStr ''hg38'')"
    by (simp add: germline_row_def)
  have pip: "map_of germline_row ''pipeline'' = Some (SStr ''dragen-germline'')"
    by (simp add: germline_row_def)
  have cus: "custom_entries germline_row = Some cp"
    by (simp add: germline_row_def custom_entries_def cp_def)
  have flag: "''enable-map-align'' \<in> set germline_flags"
    by (simp add: germline_flags_def)
  have c1: "map_of cp ''sample-id'' = None" "map_of cp ''reference-tar'' = None"
    "map_of cp ''output-directory'' = None" "map_of cp ''enable-map-align'' = None"
    "map_of cp ''enable-sort'' = Some (SBool False)"
    "map_of cp ''read-trimmers'' = Some (SStr ''polyg'')"
    by (simp_all add: cp_def)
  from generate_params_total_layered [OF sid ref pip cus, of "\<lambda>v. []"]
  show ?thesis
  proof (elim exE conjE)
    fix ps
    assume ps: "generate_params (\<lambda>v. []) (SMap germline_row) = Inr ps"
      and custom: "\<forall>k v. map_of cp k = Some v \<longrightarrow> ps k = Some v"
      and b1: "map_of cp ''sample-id'' = None \<longrightarrow> ps ''sample-id'' = Some (SStr ''S1'')"
      and b2: "map_of cp ''reference-tar'' = None \<longrightarrow>
               ps ''reference-tar'' =
                 Some (SStr (''/reference-data/'' @ ''hg38'' @ ''/'' @ ''hg38'' @ ''.fa''))"
      and b3: "map_of cp ''output-directory'' = None \<longrightarrow>
               ps ''output-directory'' = Some (SStr ''/output'')"
      and g: "SStr ''dragen-germline'' = SStr ''dragen-germline'' \<longrightarrow>
              (\<forall>f\<in>set germline_flags. map_of cp f = None \<longrightarrow> ps f = Some (SBool True))"
    have v1: "ps ''sample-id'' = Some (SStr ''S1'')"
      using b1 c1(1) by simp
    have v2: "ps ''reference-tar'' = Some (SStr ''/reference-data/hg38/hg38.fa'')"
      using b2 c1(2) by simp
    have v3: "ps ''output-directory'' = Some (SStr ''/output'')"
      using b3 c1(3) by simp
    have v4: "ps ''enable-map-align'' = Some (SBool True)"
      using g flag c1(4) by simp
    have v5: "ps ''enable-sort'' = Some (SBool False)"
      using custom c1(5) by simp
    have v6: "ps ''read-trimmers'' = Some (SStr ''polyg'')"
      using custom c1(6) by simp
    show ?thesis
      by (rule exI [of _ ps]) (intro conjI ps v1 v2 v3 v4 v5 v6)
  qed
qed

section \<open>The batch: summary invariant and isolation of failures\<close>

lemma try_body_completed:
  assumes "try_body env pn sample = (t, Inr r)"
  shows "wi_status r = ''completed'' \<and> wi_error r = None
         \<and> row_getitem sample ''sample_id'' = Inr (wi_sample_id r)
         \<and> wi_timestamp r = clock env"
  using assms by (auto simp: try_body_def split: prod.splits sum.splits)

lemma process_sample_caught:
  assumes "row_getitem sample ''sample_id'' = Inr sid"
  shows "process_sample env pn sample =
           (case try_body env pn sample of
              (t, Inr r) \<Rightarrow> (t, Inr r)
            | (t, Inl e) \<Rightarrow> (t @ [BLogError sid e], Inr (failed_result sid e (clock env))))"
  by (simp add: process_sample_def assms failed_result_def split: prod.splits sum.splits)

lemma process_sample_returns:
  assumes "has_sample_id sample"
  shows "\<exists>t r. process_sample env pn sample = (t, Inr r)
           \<and> (wi_status r = ''completed'' \<or> wi_status r = ''failed'')"
proof -
  from assms obtain sid where sid: "row_getitem sample ''sample_id'' = Inr sid"
    by (auto simp: has_sample_id_def split: sum.splits)
  obtain t x where tb: "try_body env pn sample = (t, x)"
    by (cases "try_body env pn sample")
  show ?thesis
  proof (cases x)
    case (Inl e)
    with tb sid show ?thesis
      by (simp add: process_sample_caught failed_result_def)
  next
    case (Inr r)
    with tb try_body_completed [of env pn sample t r] sid show ?thesis
      by (simp add: process_sample_caught)
  qed
qed

lemma collect_results_all:
  assumes "list_all has_sample_id samples"
  shows "\<exists>rs. collect_results (run_items envs pn i samples) = Inr rs
           \<and> length rs = length samples
           \<and> (\<forall>j<length samples.
                 snd (process_sample (envs (i + j)) pn (samples ! j)) = Inr (rs ! j))"
  using assms
proof (induction samples arbitrary: i)
  case Nil
  then show ?case by simp
next
  case (Cons s ss)
  from Cons.prems have h: "has_sample_id s" and rest: "list_all has_sample_id ss" by simp_all
  from process_sample_returns [OF h, of "envs i" pn]
  obtain t r where p: "process_sample (envs i) pn s = (t, Inr r)" by blast
  from Cons.IH [OF rest, of "Suc i"]
  obtain rs where c: "collect_results (run_items envs pn (Suc i) ss) = Inr rs"
    and l: "length rs = length ss"
    and a: "\<forall>j<length ss. snd (process_sample (envs (Suc i + j)) pn (ss ! j)) = Inr (rs ! j)"
    by blast
  have "collect_results (run_items envs pn i (s # ss)) = Inr (r # rs)"
    using p c by simp
  moreover have "length (r # rs) = length (s # ss)"
    using l by simp
  moreover have "\<forall>j<length (s # ss).
      snd (process_sample (envs (i + j)) pn ((s # ss) ! j)) = Inr ((r # rs) ! j)"
  proof (intro allI impI)
    fix j assume "j < length (s # ss)"
    then show "snd (process_sample (envs (i + j)) pn ((s # ss) ! j)) = Inr ((r # rs) ! j)"
      using p a by (cases j) simp_all
  qed
  ultimately show ?case by blast
qed

lemma status_of_result:
  assumes "has_sample_id sample" and "snd (process_sample env pn sample) = Inr r"
  shows "wi_status r = ''completed'' \<or> wi_status r = ''failed''"
  using process_sample_returns [OF assms(1), of env pn] assms(2) by auto

lemma count_two_statuses:
  assumes "\<forall>r\<in>set rs. wi_status r = ''completed'' \<or> wi_status r = ''failed''"
  shows "length (filter (\<lambda>r. wi_status r = ''completed'') rs)
         + length (filter (\<lambda>r. wi_status r = ''failed'') rs) = length rs"
  using assms by (induction rs) auto

lemma process_batch_written:
  assumes "collect_results (run_items (item_envs env) pn 0 samples) = Inr rs"
      and "outputs_writable env"
      and "0 < workers"
  shows "process_batch env workers pn samples =
           Inr \<lparr>returned = rs, results_json = rs,
                summary_json =
                  \<lparr>total_samples = length samples,
                   completed = length (filter (\<lambda>r. wi_status r = ''completed'') rs),
                   failed = length (filter (\<lambda>r. wi_status r = ''failed'') rs),
                   timestamp = summary_clock env\<rparr>,
                batch_log = map (\<lambda>r. BLogInfo (wi_sample_id r) (wi_status r)) rs\<rparr>"
  using assms by (simp add: process_batch_def outputs_writable_def)


lemma demo_row_id: "row_getitem (demo_row n) ''sample_id'' = Inr (SStr n)"
  by (simp add: demo_row_def row_getitem_def)

lemma demo_rows_have_ids: "list_all has_sample_id demo_samples"
  by (simp add: demo_samples_def has_sample_id_def demo_row_id)

lemma clock_exits_with: "clock (exits_with up pl) = ''2024-01-01T00:00:00''"
  by (simp add: exits_with_def)

lemma upload_demo:
  "upload_stage (exits_with up pl) pn (demo_row n) =
     ([BRun (upload_cmd_of pn n)],
      if up \<noteq> 0 then Inl (RuntimeError (''Upload failed: '' @ ''boom'')) else Inr ())"
  by (simp add: upload_stage_def demo_row_def row_getitem_def exits_with_def upload_cmd_of_def)

lemma generate_demo: "\<exists>ps. generate_params fmt (demo_row n) = Inr ps"
proof -
  have "custom_entries [(''sample_id'', SStr n), (''data_folder'', SStr (''/data/'' @ n)),
           (''pipeline'', SStr ''dragen-germline''), (''reference'', SStr ''hg38'')] = Some []"
    by (simp add: custom_entries_def)
  from generate_params_layers [OF _ _ _ this, of "SStr n" "''hg38''" "SStr ''dragen-germline''" fmt]
  show ?thesis by (simp add: demo_row_def)
qed

lemma params_demo:
  "params_stage (exits_with up pl) (demo_row n) =
     ([BWrite (n @ ''_params.json'')], Inr (n @ ''_params.json''))"
proof -
  obtain ps where "generate_params (py_str (exits_with up pl)) (demo_row n) = Inr ps"
    using generate_demo by blast
  then show ?thesis
    by (simp add: params_stage_def demo_row_id format_value_def Let_def)
      (simp add: exits_with_def)
qed

lemma pipeline_demo:
  "pipeline_stage (exits_with up pl) pn (demo_row n) (n @ ''_params.json'') =
     ([BRun (pipeline_cmd_of pn n)],
      if pl \<noteq> 0 then Inl (RuntimeError (''Pipeline failed: '' @ ''boom'')) else Inr ())"
  by (simp add: pipeline_stage_def demo_row_def row_getitem_def exits_with_def
      pipeline_cmd_of_def format_value_def)

lemma try_body_upload_fails_demo:
  "try_body (exits_with 1 pl) pn (demo_row n) =
     ([BRun (upload_cmd_of pn n)], Inl (RuntimeError (''Upload failed: '' @ ''boom'')))"
  by (simp add: try_body_def upload_demo)

lemma try_body_pipeline_fails_demo:
  "try_body (exits_with 0 1) pn (demo_row n) =
     ([BRun (upload_cmd_of pn n), BWrite (n @ ''_params.json''), BRun (pipeline_cmd_of pn n)],
      Inl (RuntimeError (''Pipeline failed: '' @ ''boom'')))"
  by (simp add: try_body_def upload_demo params_demo pipeline_demo)

lemma try_body_succeeds_demo:
  "try_body (exits_with 0 0) pn (demo_row n) =
     ([BRun (upload_cmd_of pn n), BWrite (n @ ''_params.json''), BRun (pipeline_cmd_of pn n)],
      Inr \<lparr>wi_sample_id = SStr n, wi_status = ''completed'', wi_error = None,
           wi_timestamp = ''2024-01-01T00:00:00''\<rparr>)"
  by (simp add: try_body_def upload_demo params_demo pipeline_demo demo_row_id clock_exits_with)

lemma process_sample_upload_fails_demo:
  "process_sample (exits_with 1 pl) pn (demo_row n) =
     ([BRun (upload_cmd_of pn n),
       BLogError (SStr n) (RuntimeError (''Upload failed: '' @ ''boom''))],
      Inr (failed_result (SStr n) (RuntimeError (''Upload failed: '' @ ''boom''))
             ''2024-01-01T00:00:00''))"
  by (simp add: process_sample_caught [OF demo_row_id] try_body_upload_fails_demo clock_exits_with)


lemma process_sample_failed:
  assumes sid: "row_getitem sample ''sample_id'' = Inr sid"
      and fails: "snd (try_body env pn sample) = Inl e"
  shows "process_sample env pn sample =
           (fst (try_body env pn sample) @ [BLogError sid e],
            Inr (failed_result sid e (clock env)))"
  using fails by (cases "try_body env pn sample") (simp add: process_sample_caught [OF sid])

lemma process_sample_completed:
  assumes ok: "snd (try_body env pn sample) = Inr r"
  shows "process_sample env pn sample = (fst (try_body env pn sample), Inr r)
         \<and> wi_status r = ''completed''"
proof -
  obtain t where tb: "try_body env pn sample = (t, Inr r)"
    using ok by (cases "try_body env pn sample") simp
  from try_body_completed [OF tb] have st: "wi_status r = ''completed''" by simp
  from tb show ?thesis by (simp add: process_sample_def st)
qed

lemma count_only_one:
  assumes k: "k < length rs"
      and bad: "wi_status (rs ! k) = ''failed''"
      and good: "\<forall>i<length rs. i \<noteq> k \<longrightarrow> wi_status (rs ! i) = ''completed''"
  shows "length (filter (\<lambda>r. wi_status r = ''failed'') rs) = 1
         \<and> length (filter (\<lambda>r. wi_status r = ''completed'') rs) = length rs - 1"
proof -
  have "{i. i < length rs \<and> wi_status (rs ! i) = ''failed''} = {k}"
    using k bad good by auto
  then have one: "length (filter (\<lambda>r. wi_status r = ''failed'') rs) = 1"
    by (simp add: length_filter_conv_card)
  have "\<forall>r\<in>set rs. wi_status r = ''completed'' \<or> wi_status r = ''failed''"
    using bad good by (metis in_set_conv_nth)
  from count_two_statuses [OF this] one show ?thesis by simp
qed


text \<open>
  On rows that carry a sample id the batch is summarised. With a positive number of
  workers, in an environment where the output directory and files can be written,
  \<open>process_batch\<close> over such rows returns (it does not raise), whatever the samples'
  commands did, and so also when every one of them failed. The results file holds the
  returned results, one per sample; the summary counts all samples as its total, the
  results with status \<open>completed\<close> and with status \<open>failed\<close> as its two counts, and
  \<open>completed + failed = total\<close>.
\<close>

theorem batch_always_summarised:
  assumes ids: "list_all has_sample_id samples"
      and wr: "outputs_writable env"
      and pos: "0 < workers"
  shows "\<exists>out. process_batch env workers pn samples = Inr out
           \<and> returned out = results_json out
           \<and> length (results_json out) = length samples
           \<and> total_samples (summary_json out) = length samples
           \<and> completed (summary_json out) =
               length (filter (\<lambda>r. wi_status r = ''completed'') (results_json out))
           \<and> failed (summary_json out) =
               length (filter (\<lambda>r. wi_status r = ''failed'') (results_json out))
           \<and> completed (summary_json out) + failed (summary_json out) =
               total_samples (summary_json out)"
proof -
  from collect_results_all [OF ids, of "item_envs env" pn 0]
  obtain rs where c: "collect_results (run_items (item_envs env) pn 0 samples) = Inr rs"
    and l: "length rs = length samples"
    and a: "\<forall>j<length samples.
              snd (process_sample (item_envs env (0 + j)) pn (samples ! j)) = Inr (rs ! j)"
    by blast
  have st: "\<forall>r\<in>set rs. wi_status r = ''completed'' \<or> wi_status r = ''failed''"
  proof
    fix r assume "r \<in> set rs"
    then obtain j where j: "j < length rs" and r: "r = rs ! j"
      by (auto simp: in_set_conv_nth)
    from ids j l have "has_sample_id (samples ! j)"
      by (simp add: list_all_length)
    moreover from a j l have "snd (process_sample (item_envs env j) pn (samples ! j)) = Inr (rs ! j)"
      by simp
    ultimately show "wi_status r = ''completed'' \<or> wi_status r = ''failed''"
      unfolding r by (rule status_of_result)
  qed
  note w = process_batch_written [OF c wr pos]
  show ?thesis
    using count_two_statuses [OF st] l by (simp add: w)
qed

theorem batch_always_summarised_witness:
  "\<exists>out. process_batch all_fail 5 ''proj'' demo_samples = Inr out
     \<and> length (results_json out) = 3
     \<and> map wi_status (results_json out) = [''failed'', ''failed'', ''failed'']
     \<and> total_samples (summary_json out) = 3
     \<and> completed (summary_json out) = 0
     \<and> failed (summary_json out) = 3"
proof -
  have wr: "outputs_writable all_fail"
    by (simp add: outputs_writable_def all_fail_def)
  have c: "collect_results (run_items (item_envs all_fail) ''proj'' 0 demo_samples) =
             Inr (map (\<lambda>n. failed_result (SStr n) (RuntimeError (''Upload failed: '' @ ''boom''))
                        ''2024-01-01T00:00:00'') [''A'', ''B'', ''C''])"
    by (simp add: demo_samples_def all_fail_def process_sample_upload_fails_demo)
  have pos: "(0::int) < 5"
    by simp
  show ?thesis
    using batch_always_summarised [OF demo_rows_have_ids wr pos, of "''proj''"]
    by (simp add: process_batch_written [OF c wr pos] failed_result_def)
qed

text \<open>
  On rows that carry a sample id a failure stays with its sample. With a positive number
  of workers and writable outputs, in a batch of N such rows in which the \<open>try\<close> body of exactly the
  sample at position k ends with an exception e, and the body of every other sample
  returns, the batch is not aborted: the exception is caught in that sample's
  \<open>process_sample\<close>, logged, and recorded as the single failed result at position k
  (carrying e); the result recorded at any position is what that sample's own
  \<open>process_sample\<close> returned from its own environment, so no sample changes another's;
  every other result is \<open>completed\<close>, and the summary counts 1 failed and N - 1
  completed.
\<close>

theorem batch_isolates_item_failure:
  assumes ids: "list_all has_sample_id samples"
      and wr: "outputs_writable env"
      and k: "k < length samples"
      and sidk: "row_getitem (samples ! k) ''sample_id'' = Inr sid"
      and fails: "snd (try_body (item_envs env k) pn (samples ! k)) = Inl e"
      and others: "\<forall>i<length samples. i \<noteq> k \<longrightarrow>
                     (\<exists>r. snd (try_body (item_envs env i) pn (samples ! i)) = Inr r)"
      and pos: "0 < workers"
  shows "\<exists>out. process_batch env workers pn samples = Inr out
           \<and> length (results_json out) = length samples
           \<and> (\<forall>i<length samples.
                 snd (process_sample (item_envs env i) pn (samples ! i)) =
                   Inr (results_json out ! i))
           \<and> results_json out ! k = failed_result sid e (clock (item_envs env k))
           \<and> last (fst (process_sample (item_envs env k) pn (samples ! k))) = BLogError sid e
           \<and> (\<forall>i<length samples. i \<noteq> k \<longrightarrow> wi_status (results_json out ! i) = ''completed'')
           \<and> failed (summary_json out) = 1
           \<and> completed (summary_json out) = length samples - 1"
proof -
  from collect_results_all [OF ids, of "item_envs env" pn 0]
  obtain rs where c: "collect_results (run_items (item_envs env) pn 0 samples) = Inr rs"
    and l: "length rs = length samples"
    and a: "\<forall>j<length samples.
              snd (process_sample (item_envs env j) pn (samples ! j)) = Inr (rs ! j)"
    by auto
  note w = process_batch_written [OF c wr pos]
  note pk = process_sample_failed [OF sidk fails]
  have "snd (process_sample (item_envs env k) pn (samples ! k)) = Inr (rs ! k)"
    using a k by blast
  then have rk: "rs ! k = failed_result sid e (clock (item_envs env k))"
    by (simp add: pk)
  have lg: "last (fst (process_sample (item_envs env k) pn (samples ! k))) = BLogError sid e"
    by (simp add: pk)
  have good: "\<forall>i<length samples. i \<noteq> k \<longrightarrow> wi_status (rs ! i) = ''completed''"
  proof (intro allI impI)
    fix i assume i: "i < length samples" and ne: "i \<noteq> k"
    with others obtain r where r: "snd (try_body (item_envs env i) pn (samples ! i)) = Inr r"
      by blast
    from a i have "snd (process_sample (item_envs env i) pn (samples ! i)) = Inr (rs ! i)"
      by blast
    with process_sample_completed [OF r] show "wi_status (rs ! i) = ''completed''"
      by simp
  qed
  have bad: "wi_status (rs ! k) = ''failed''"
    by (simp add: rk failed_result_def)
  from count_only_one [of k rs] k l bad good
  have cnt: "length (filter (\<lambda>r. wi_status r = ''failed'') rs) = 1
             \<and> length (filter (\<lambda>r. wi_status r = ''completed'') rs) = length rs - 1"
    by simp
  show ?thesis
    using l a rk lg good cnt by (simp add: w)
qed

theorem batch_isolates_item_failure_witness:
  "\<exists>out. process_batch (one_bad 1) 5 ''proj'' demo_samples = Inr out
     \<and> length (results_json out) = 3
     \<and> results_json out ! 1 =
         failed_result (SStr ''B'') (RuntimeError ''Pipeline failed: boom'') ''2024-01-01T00:00:00''
     \<and> wi_status (results_json out ! 0) = ''completed''
     \<and> wi_status (results_json out ! 2) = ''completed''
     \<and> failed (summary_json out) = 1
     \<and> completed (summary_json out) = 2"
proof -
  have wr: "outputs_writable (one_bad 1)"
    by (simp add: outputs_writable_def one_bad_def)
  have k: "(1::nat) < length demo_samples"
    by (simp add: demo_samples_def)
  have sidk: "row_getitem (demo_samples ! 1) ''sample_id'' = Inr (SStr ''B'')"
    by (simp add: demo_samples_def demo_row_id)
  have fails: "snd (try_body (item_envs (one_bad 1) 1) ''proj'' (demo_samples ! 1)) =
                 Inl (RuntimeError ''Pipeline failed: boom'')"
    by (simp add: one_bad_def demo_samples_def try_body_pipeline_fails_demo)
  have others: "\<forall>i<length demo_samples. i \<noteq> 1 \<longrightarrow>
                  (\<exists>r. snd (try_body (item_envs (one_bad 1) i) ''proj'' (demo_samples ! i)) = Inr r)"
  proof (intro allI impI)
    fix i :: nat
    assume "i < length demo_samples" and "i \<noteq> 1"
    then have "i = 0 \<or> i = 2"
      by (auto simp: demo_samples_def)
    then show "\<exists>r. snd (try_body (item_envs (one_bad 1) i) ''proj'' (demo_samples ! i)) = Inr r"
      by (auto simp: one_bad_def demo_samples_def try_body_succeeds_demo)
  qed
  have clk: "clock (item_envs (one_bad b) i) = ''2024-01-01T00:00:00''" for b i
    by (simp add: one_bad_def clock_exits_with)
  have pos: "(0::int) < 5"
    by simp
  from batch_isolates_item_failure [OF demo_rows_have_ids wr k sidk fails others pos]
  show ?thesis
    by (auto simp: clk demo_samples_def)
qed

lemma nameless_row_raises:
  "process_sample env pn nameless_row = ([], Inl (KeyError ''sample_id''))"
  by (simp add: process_sample_def try_body_def upload_stage_def nameless_row_def
      row_getitem_def)

lemma demo_row_completes:
  "process_sample (exits_with 0 0) pn (demo_row n) =
     ([BRun (upload_cmd_of pn n), BWrite (n @ ''_params.json''), BRun (pipeline_cmd_of pn n)],
      Inr \<lparr>wi_sample_id = SStr n, wi_status = ''completed'', wi_error = None,
           wi_timestamp = ''2024-01-01T00:00:00''\<rparr>)"
  by (simp add: process_sample_def try_body_succeeds_demo)

text \<open>
  Claim C1, on the code. A batch does not always end with its results and its summary.
  The handler of \<open>process_sample\<close> reads \<open>sample['sample_id']\<close> to record the failure; on
  a row without that key (a sheet whose identity column has another name) the KeyError
  of the \<open>try\<close> body is followed by a KeyError in the handler, which leaves
  \<open>process_sample\<close> and \<open>process_batch\<close>: every item of this batch failed, and neither the
  results nor the summary is written.
\<close>

theorem batch_of_nameless_rows_is_not_summarised:
  "process_sample (exits_with 1 1) ''proj'' nameless_row = ([], Inl (KeyError ''sample_id''))
   \<and> process_batch all_fail 5 ''proj'' [nameless_row, nameless_row] = Inl (KeyError ''sample_id'')"
  by (simp add: process_batch_def all_fail_def nameless_row_raises)

text \<open>
  Claim C2, on the code. One failing item can abort the batch. In a batch of three with
  two well-formed rows whose commands all succeed and, between them, a row without
  \<open>sample_id\<close>, the \<open>try\<close> body of the middle item raises KeyError; the handler raises
  it again instead of recording a failed result, so the failure is not caught at the
  item's boundary, and \<open>process_batch\<close> raises although each sibling, run on its own,
  completes.
\<close>

theorem uncaught_item_failure_aborts_batch:
  "snd (try_body (exits_with 0 0) ''proj'' nameless_row) = Inl (KeyError ''sample_id'')
   \<and> process_sample (exits_with 0 0) ''proj'' nameless_row = ([], Inl (KeyError ''sample_id''))
   \<and> snd (process_sample (exits_with 0 0) ''proj'' (demo_row ''A'')) =
       Inr \<lparr>wi_sample_id = SStr ''A'', wi_status = ''completed'', wi_error = None,
            wi_timestamp = ''2024-01-01T00:00:00''\<rparr>
   \<and> snd (process_sample (exits_with 0 0) ''proj'' (demo_row ''C'')) =
       Inr \<lparr>wi_sample_id = SStr ''C'', wi_status = ''completed'', wi_error = None,
            wi_timestamp = ''2024-01-01T00:00:00''\<rparr>
   \<and> process_batch (one_bad 5) 5 ''proj'' [demo_row ''A'', nameless_row, demo_row ''C''] =
       Inl (KeyError ''sample_id'')"
proof -
  have t: "snd (try_body (exits_with 0 0) ''proj'' nameless_row) = Inl (KeyError ''sample_id'')"
    by (simp add: try_body_def upload_stage_def nameless_row_def row_getitem_def)
  have b: "process_batch (one_bad 5) 5 ''proj'' [demo_row ''A'', nameless_row, demo_row ''C''] =
             Inl (KeyError ''sample_id'')"
    by (simp add: process_batch_def one_bad_def nameless_row_raises demo_row_completes)
  from t b show ?thesis
    by (simp add: nameless_row_raises demo_row_completes)
qed

section \<open>Stages run in order and stop at the first failure\<close>

lemma runs_of_append: "runs_of (a @ b) = runs_of a @ runs_of b"
  by (induction a rule: runs_of.induct) simp_all

lemma runs_of_prints: "runs_of (map (\<lambda>l. Print (f l)) ls) = []"
  by (induction ls) simp_all

lemma runs_of_run_upload:
  "runs_of (fst (run_upload env i p f)) = [upload_command env i p f]"
  by (simp add: run_upload_def Let_def split: sum.splits)

lemma runs_of_run_pipeline:
  "runs_of (fst (run_pipeline env p n i pf an)) = [pipeline_command env p n i pf an]"
  by (simp add: run_pipeline_def Let_def split: sum.splits option.splits)

lemma runs_of_run_download:
  "runs_of (fst (run_download env p a out iv)) = [download_command env p a out iv]"
  by (simp add: run_download_def Let_def runs_of_append runs_of_prints split: sum.splits)

lemma upload_diagnostic:
  assumes "run env (upload_command env i p f) = Inr result" and "returncode result \<noteq> 0"
  shows "snd (run_upload env i p f) = None
         \<and> last (fst (run_upload env i p f)) = Print (''Error during upload: '' @ stderr result)"
  using assms by (simp add: run_upload_def Let_def)

lemma pipeline_diagnostic:
  assumes "run env (pipeline_command env p n i pf an) = Inr result" and "returncode result \<noteq> 0"
  shows "snd (run_pipeline env p n i pf an) = None
         \<and> last (fst (run_pipeline env p n i pf an)) =
             Print (''Error starting pipeline: '' @ stderr result)"
  using assms by (simp add: run_pipeline_def Let_def)

lemma main_upload_failed:
  assumes "check_ica_cli (run env [''ica'', ''--version''])"
      and "\<not> opt_truthy (snd (run_upload env (input_folder args) (project_name args) (folder_name args)))"
  shows "workflow_main env args =
           ([Run [''ica'', ''--version'']]
            @ fst (run_upload env (input_folder args) (project_name args) (folder_name args))
            @ [Print ''Upload failed. Stopping workflow.''], 1)"
  using assms by (simp add: workflow_main_def Let_def case_prod_beta)

lemma main_pipeline_failed:
  assumes "check_ica_cli (run env [''ica'', ''--version''])"
      and "snd (run_upload env (input_folder args) (project_name args) (folder_name args)) = Some up"
      and "up \<noteq> []"
      and "\<not> opt_truthy (snd (run_pipeline env (project_name args) (pipeline_name args) up
                                  (params_file args) (analysis_name args)))"
  shows "workflow_main env args =
           ([Run [''ica'', ''--version'']]
            @ fst (run_upload env (input_folder args) (project_name args) (folder_name args))
            @ fst (run_pipeline env (project_name args) (pipeline_name args) up
                     (params_file args) (analysis_name args))
            @ [Print ''Pipeline start failed. Stopping workflow.''], 1)"
  using assms by (simp add: workflow_main_def Let_def case_prod_beta opt_truthy_def)

lemma main_all_stages:
  assumes "check_ica_cli (run env [''ica'', ''--version''])"
      and "snd (run_upload env (input_folder args) (project_name args) (folder_name args)) = Some up"
      and "up \<noteq> []"
      and "snd (run_pipeline env (project_name args) (pipeline_name args) up
                  (params_file args) (analysis_name args)) = Some aid"
      and "aid \<noteq> []"
  shows "workflow_main env args =
           ([Run [''ica'', ''--version'']]
            @ fst (run_upload env (input_folder args) (project_name args) (folder_name args))
            @ fst (run_pipeline env (project_name args) (pipeline_name args) up
                     (params_file args) (analysis_name args))
            @ fst (run_download env (project_name args) aid (output_dir args) (polling_interval args)),
            if snd (run_download env (project_name args) aid (output_dir args) (polling_interval args))
            then 0 else 1)"
  using assms by (simp add: workflow_main_def Let_def case_prod_beta opt_truthy_def)

lemma try_body_stops_at_upload:
  assumes "snd (upload_stage env pn s) = Inl e"
  shows "try_body env pn s = (fst (upload_stage env pn s), Inl e)"
  using assms by (simp add: try_body_def case_prod_beta split: sum.splits)

lemma try_body_stops_at_params:
  assumes "snd (upload_stage env pn s) = Inr ()" and "snd (params_stage env s) = Inl e"
  shows "try_body env pn s = (fst (upload_stage env pn s) @ fst (params_stage env s), Inl e)"
  using assms by (simp add: try_body_def case_prod_beta split: sum.splits)

lemma try_body_stops_at_pipeline:
  assumes "snd (upload_stage env pn s) = Inr ()" and "snd (params_stage env s) = Inr pf"
      and "snd (pipeline_stage env pn s pf) = Inl e"
  shows "try_body env pn s =
           (fst (upload_stage env pn s) @ fst (params_stage env s)
            @ fst (pipeline_stage env pn s pf), Inl e)"
  using assms by (simp add: try_body_def case_prod_beta split: sum.splits)

lemma upload_stage_exit:
  assumes "row_getitem s ''data_folder'' = Inr df" and "row_getitem s ''sample_id'' = Inr sid"
      and "run_cmd env [SStr ''python'', SStr ''ica_cli_upload.py'', df, SStr pn,
                        SStr ''--folder-name'', sid] = Inr p"
      and "returncode p \<noteq> 0"
  shows "upload_stage env pn s =
           ([BRun [SStr ''python'', SStr ''ica_cli_upload.py'', df, SStr pn,
                   SStr ''--folder-name'', sid]],
            Inl (RuntimeError (''Upload failed: '' @ stderr p)))"
  using assms by (simp add: upload_stage_def Let_def)

lemma process_sample_upload_exit:
  assumes df: "row_getitem s ''data_folder'' = Inr df" and sid: "row_getitem s ''sample_id'' = Inr sid"
      and r: "run_cmd env [SStr ''python'', SStr ''ica_cli_upload.py'', df, SStr pn,
                        SStr ''--folder-name'', sid] = Inr p"
      and nz: "returncode p \<noteq> 0"
  shows "process_sample env pn s =
           ([BRun [SStr ''python'', SStr ''ica_cli_upload.py'', df, SStr pn,
                   SStr ''--folder-name'', sid],
             BLogError sid (RuntimeError (''Upload failed: '' @ stderr p))],
            Inr (failed_result sid (RuntimeError (''Upload failed: '' @ stderr p)) (clock env)))"
proof -
  note u = upload_stage_exit [OF df sid r nz]
  have "try_body env pn s =
          ([BRun [SStr ''python'', SStr ''ica_cli_upload.py'', df, SStr pn,
                  SStr ''--folder-name'', sid]],
           Inl (RuntimeError (''Upload failed: '' @ stderr p)))"
    using try_body_stops_at_upload [of env pn s "RuntimeError (''Upload failed: '' @ stderr p)"]
    by (simp add: u)
  then show ?thesis
    by (simp add: process_sample_caught [OF sid])
qed

text \<open>
  Claim C7. The stages run in their listed order and execution is fail-fast. In
  \<open>process_sample\<close>: an exception that ends the upload, the parameter file or the
  pipeline stage ends the \<open>try\<close> body there, with the events of the stages up to it and
  of no later one, and the recorded result is \<open>failed\<close> carrying that exception; when
  the upload command exits with a code other than 0, the only command run is the upload
  and the result carries \<open>Upload failed:\<close> with the command's standard error. In the
  workflow's \<open>main\<close>: when the upload reports failure the script exits with 1 having run
  only the probe and the upload; when the upload produces a folder name and the pipeline
  start reports failure it exits with 1 having run the probe, the upload and the
  pipeline start, in this order, and never the download; when both produce a value the
  commands run are the probe, the upload, the pipeline start and the download, in this
  order, and the exit code is the download's outcome. A pipeline start that exits with a
  code other than 0 reports failure and prints its standard error.
\<close>

theorem stages_in_order_fail_fast:
  fixes env :: item_env and wenv :: workflow_env and args :: workflow_args
  defines "probe \<equiv> [''ica'', ''--version'']"
      and "up \<equiv> run_upload wenv (input_folder args) (project_name args) (folder_name args)"
      and "upc \<equiv> upload_command wenv (input_folder args) (project_name args) (folder_name args)"
  shows
    "(snd (upload_stage env pn s) = Inl e \<longrightarrow>
        try_body env pn s = (fst (upload_stage env pn s), Inl e))
   \<and> (snd (upload_stage env pn s) = Inr () \<and> snd (params_stage env s) = Inl e \<longrightarrow>
        try_body env pn s = (fst (upload_stage env pn s) @ fst (params_stage env s), Inl e))
   \<and> (snd (upload_stage env pn s) = Inr () \<and> snd (params_stage env s) = Inr pf
        \<and> snd (pipeline_stage env pn s pf) = Inl e \<longrightarrow>
        try_body env pn s =
          (fst (upload_stage env pn s) @ fst (params_stage env s)
           @ fst (pipeline_stage env pn s pf), Inl e))
   \<and> (row_getitem s ''sample_id'' = Inr sid \<and> snd (try_body env pn s) = Inl e \<longrightarrow>
        snd (process_sample env pn s) = Inr (failed_result sid e (clock env)))
   \<and> (row_getitem s ''data_folder'' = Inr df \<and> row_getitem s ''sample_id'' = Inr sid
        \<and> run_cmd env [SStr ''python'', SStr ''ica_cli_upload.py'', df, SStr pn,
                        SStr ''--folder-name'', sid] = Inr p
        \<and> returncode p \<noteq> 0 \<longrightarrow>
        process_sample env pn s =
          ([BRun [SStr ''python'', SStr ''ica_cli_upload.py'', df, SStr pn,
                  SStr ''--folder-name'', sid],
            BLogError sid (RuntimeError (''Upload failed: '' @ stderr p))],
           Inr (failed_result sid (RuntimeError (''Upload failed: '' @ stderr p)) (clock env))))
   \<and> (check_ica_cli (run wenv probe) \<and> \<not> opt_truthy (snd up) \<longrightarrow>
        workflow_main wenv args =
          ([Run probe] @ fst up @ [Print ''Upload failed. Stopping workflow.''], 1)
        \<and> runs_of (fst (workflow_main wenv args)) = [probe, upc])
   \<and> (check_ica_cli (run wenv probe) \<and> snd up = Some folder \<and> folder \<noteq> []
        \<and> \<not> opt_truthy (snd (run_pipeline wenv (project_name args) (pipeline_name args) folder
                                   (params_file args) (analysis_name args))) \<longrightarrow>
        workflow_main wenv args =
          ([Run probe] @ fst up
           @ fst (run_pipeline wenv (project_name args) (pipeline_name args) folder
                    (params_file args) (analysis_name args))
           @ [Print ''Pipeline start failed. Stopping workflow.''], 1)
        \<and> runs_of (fst (workflow_main wenv args)) =
            [probe, upc,
             pipeline_command wenv (project_name args) (pipeline_name args) folder
               (params_file args) (analysis_name args)])
   \<and> (check_ica_cli (run wenv probe) \<and> snd up = Some folder \<and> folder \<noteq> []
        \<and> snd (run_pipeline wenv (project_name args) (pipeline_name args) folder
                  (params_file args) (analysis_name args)) = Some aid \<and> aid \<noteq> [] \<longrightarrow>
        runs_of (fst (workflow_main wenv args)) =
            [probe, upc,
             pipeline_command wenv (project_name args) (pipeline_name args) folder
               (params_file args) (analysis_name args),
             download_command wenv (project_name args) aid (output_dir args)
               (polling_interval args)]
        \<and> snd (workflow_main wenv args) =
            (if snd (run_download wenv (project_name args) aid (output_dir args)
                       (polling_interval args)) then 0 else 1))
   \<and> (run wenv (pipeline_command wenv pj pl inp pfile aname) = Inr q \<and> returncode q \<noteq> 0 \<longrightarrow>
        snd (run_pipeline wenv pj pl inp pfile aname) = None
        \<and> last (fst (run_pipeline wenv pj pl inp pfile aname)) =
            Print (''Error starting pipeline: '' @ stderr q))"
proof (intro conjI impI; (elim conjE)?)
  show "try_body env pn s = (fst (upload_stage env pn s), Inl e)"
    if "snd (upload_stage env pn s) = Inl e"
    using that by (rule try_body_stops_at_upload)
  show "try_body env pn s = (fst (upload_stage env pn s) @ fst (params_stage env s), Inl e)"
    if "snd (upload_stage env pn s) = Inr ()" "snd (params_stage env s) = Inl e"
    using that by (rule try_body_stops_at_params)
  show "try_body env pn s =
          (fst (upload_stage env pn s) @ fst (params_stage env s)
           @ fst (pipeline_stage env pn s pf), Inl e)"
    if "snd (upload_stage env pn s) = Inr ()" "snd (params_stage env s) = Inr pf"
      "snd (pipeline_stage env pn s pf) = Inl e"
    using that by (rule try_body_stops_at_pipeline)
  show "snd (process_sample env pn s) = Inr (failed_result sid e (clock env))"
    if "row_getitem s ''sample_id'' = Inr sid" "snd (try_body env pn s) = Inl e"
    using process_sample_failed [OF that] by simp
  show "process_sample env pn s =
          ([BRun [SStr ''python'', SStr ''ica_cli_upload.py'', df, SStr pn,
                  SStr ''--folder-name'', sid],
            BLogError sid (RuntimeError (''Upload failed: '' @ stderr p))],
           Inr (failed_result sid (RuntimeError (''Upload failed: '' @ stderr p)) (clock env)))"
    if "row_getitem s ''data_folder'' = Inr df" "row_getitem s ''sample_id'' = Inr sid"
      "run_cmd env [SStr ''python'', SStr ''ica_cli_upload.py'', df, SStr pn,
                    SStr ''--folder-name'', sid] = Inr p"
      "returncode p \<noteq> 0"
    using that by (rule process_sample_upload_exit)
next
  assume c: "check_ica_cli (run wenv probe)" and f: "\<not> opt_truthy (snd up)"
  from c f have m: "workflow_main wenv args =
      ([Run probe] @ fst up @ [Print ''Upload failed. Stopping workflow.''], 1)"
    unfolding probe_def up_def by (rule main_upload_failed)
  show "workflow_main wenv args =
      ([Run probe] @ fst up @ [Print ''Upload failed. Stopping workflow.''], 1)"
    by (rule m)
  show "runs_of (fst (workflow_main wenv args)) = [probe, upc]"
    by (simp add: m runs_of_append) (simp add: up_def upc_def runs_of_run_upload)
next
  assume c: "check_ica_cli (run wenv probe)" and u: "snd up = Some folder" and n: "folder \<noteq> []"
    and f: "\<not> opt_truthy (snd (run_pipeline wenv (project_name args) (pipeline_name args) folder
                                 (params_file args) (analysis_name args)))"
  from c u n f have m: "workflow_main wenv args =
          ([Run probe] @ fst up
           @ fst (run_pipeline wenv (project_name args) (pipeline_name args) folder
                    (params_file args) (analysis_name args))
           @ [Print ''Pipeline start failed. Stopping workflow.''], 1)"
    unfolding probe_def up_def by (rule main_pipeline_failed)
  show "workflow_main wenv args =
          ([Run probe] @ fst up
           @ fst (run_pipeline wenv (project_name args) (pipeline_name args) folder
                    (params_file args) (analysis_name args))
           @ [Print ''Pipeline start failed. Stopping workflow.''], 1)"
    by (rule m)
  show "runs_of (fst (workflow_main wenv args)) =
            [probe, upc,
             pipeline_command wenv (project_name args) (pipeline_name args) folder
               (params_file args) (analysis_name args)]"
    by (simp add: m runs_of_append runs_of_run_pipeline)
      (simp add: up_def upc_def runs_of_run_upload)
next
  assume c: "check_ica_cli (run wenv probe)" and u: "snd up = Some folder" and n: "folder \<noteq> []"
    and a: "snd (run_pipeline wenv (project_name args) (pipeline_name args) folder
                  (params_file args) (analysis_name args)) = Some aid" and an: "aid \<noteq> []"
  from c u n a an have m: "workflow_main wenv args =
           ([Run probe] @ fst up
            @ fst (run_pipeline wenv (project_name args) (pipeline_name args) folder
                     (params_file args) (analysis_name args))
            @ fst (run_download wenv (project_name args) aid (output_dir args) (polling_interval args)),
            if snd (run_download wenv (project_name args) aid (output_dir args) (polling_interval args))
            then 0 else 1)"
    unfolding probe_def up_def by (rule main_all_stages)
  show "runs_of (fst (workflow_main wenv args)) =
            [probe, upc,
             pipeline_command wenv (project_name args) (pipeline_name args) folder
               (params_file args) (analysis_name args),
             download_command wenv (project_name args) aid (output_dir args)
               (polling_interval args)]"
    by (simp add: m runs_of_append runs_of_run_pipeline runs_of_run_download)
      (simp add: up_def upc_def runs_of_run_upload)
  show "snd (workflow_main wenv args) =
            (if snd (run_download wenv (project_name args) aid (output_dir args)
                       (polling_interval args)) then 0 else 1)"
    by (simp add: m)
next
  assume r: "run wenv (pipeline_command wenv pj pl inp pfile aname) = Inr q"
    and nz: "returncode q \<noteq> 0"
  from pipeline_diagnostic [OF r nz]
  show "snd (run_pipeline wenv pj pl inp pfile aname) = None"
    and "last (fst (run_pipeline wenv pj pl inp pfile aname)) =
            Print (''Error starting pipeline: '' @ stderr q)"
    by simp_all
qed

theorem stages_in_order_fail_fast_witness:
  "snd (workflow_main submit_fails demo_args) = 1
   \<and> runs_of (fst (workflow_main submit_fails demo_args)) =
       [[''ica'', ''--version''],
        [''python3'', ''/opt/ica/ica_cli_upload.py'', ''/data/run1/'', ''proj''],
        [''python3'', ''/opt/ica/ica_cli_pipeline.py'', ''proj'', ''germline'', ''run1'']]
   \<and> last (fst (workflow_main submit_fails demo_args)) =
       Print ''Pipeline start failed. Stopping workflow.''
   \<and> process_sample (exits_with 1 1) ''proj'' (demo_row ''A'') =
       ([BRun (upload_cmd_of ''proj'' ''A''),
         BLogError (SStr ''A'') (RuntimeError ''Upload failed: boom'')],
        Inr (failed_result (SStr ''A'') (RuntimeError ''Upload failed: boom'')
               ''2024-01-01T00:00:00''))"
proof -
  have h1: "check_ica_cli (run submit_fails [''ica'', ''--version''])"
    by (simp add: check_ica_cli_def submit_fails_def)
  have h2: "snd (run_upload submit_fails (input_folder demo_args) (project_name demo_args)
                   (folder_name demo_args)) = Some ''run1''"
    by (simp add: run_upload_def upload_command_def submit_fails_def demo_args_def
        opt_truthy_def basename_def rstrip_chars_def Let_def)
  have h3: "''run1'' \<noteq> []"
    by simp
  have h4: "\<not> opt_truthy (snd (run_pipeline submit_fails (project_name demo_args)
                                (pipeline_name demo_args) ''run1'' (params_file demo_args)
                                (analysis_name demo_args)))"
    by (simp add: run_pipeline_def pipeline_command_def submit_fails_def demo_args_def
        opt_truthy_def Let_def)
  note t = stages_in_order_fail_fast [where wenv = submit_fails and args = demo_args
      and folder = "''run1''" and env = "exits_with 1 1" and pn = "''proj''"
      and s = "demo_row ''A''" and df = "SStr ''/data/A''" and sid = "SStr ''A''"
      and p = "\<lparr>returncode = 1, stdout = [], stderr = ''boom''\<rparr>"]
  note w2 = t [THEN conjunct2, THEN conjunct2, THEN conjunct2, THEN conjunct2, THEN conjunct2,
      THEN conjunct2, THEN conjunct1, THEN mp, OF conjI [OF h1 conjI [OF h2 conjI [OF h3 h4]]]]
  have b1: "row_getitem (demo_row ''A'') ''data_folder'' = Inr (SStr ''/data/A'')"
    by (simp add: demo_row_def row_getitem_def)
  have b2: "row_getitem (demo_row ''A'') ''sample_id'' = Inr (SStr ''A'')"
    by (rule demo_row_id)
  have b3: "run_cmd (exits_with 1 1)
              [SStr ''python'', SStr ''ica_cli_upload.py'', SStr ''/data/A'', SStr ''proj'',
               SStr ''--folder-name'', SStr ''A''] =
            Inr \<lparr>returncode = 1, stdout = [], stderr = ''boom''\<rparr>"
    by (simp add: exits_with_def)
  have b4: "returncode \<lparr>returncode = 1, stdout = [] :: string, stderr = ''boom''\<rparr> \<noteq> 0"
    by simp
  note b5 = t [THEN conjunct2, THEN conjunct2, THEN conjunct2, THEN conjunct2, THEN conjunct1,
      THEN mp, OF conjI [OF b1 conjI [OF b2 conjI [OF b3 b4]]]]
  have c1: "snd (workflow_main submit_fails demo_args) = 1"
    using w2 by simp
  have c2: "runs_of (fst (workflow_main submit_fails demo_args)) =
       [[''ica'', ''--version''],
        [''python3'', ''/opt/ica/ica_cli_upload.py'', ''/data/run1/'', ''proj''],
        [''python3'', ''/opt/ica/ica_cli_pipeline.py'', ''proj'', ''germline'', ''run1'']]"
    using w2 [THEN conjunct2]
    by (simp add: upload_command_def pipeline_command_def submit_fails_def demo_args_def
        opt_truthy_def)
  have c3: "last (fst (workflow_main submit_fails demo_args)) =
       Print ''Pipeline start failed. Stopping workflow.''"
    using w2 [THEN conjunct1] by simp
  have c4: "process_sample (exits_with 1 1) ''proj'' (demo_row ''A'') =
       ([BRun (upload_cmd_of ''proj'' ''A''),
         BLogError (SStr ''A'') (RuntimeError ''Upload failed: boom'')],
        Inr (failed_result (SStr ''A'') (RuntimeError ''Upload failed: boom'')
               ''2024-01-01T00:00:00''))"
    using b5 by (simp add: upload_cmd_of_def clock_exits_with)
  from c1 c2 c3 c4 show ?thesis by (intro conjI)
qed

section \<open>The status poller\<close>








text \<open>
  Claim C4, on the code. When the status query reports COMPLETED and the document has
  no \<open>output\<close> entry, the poller takes its success path: \<open>get_analysis_status\<close> prints no
  warning (the handler of lines 72-73 is reached only when \<open>output\<close> or \<open>folder\<close> is not an
  object, as for a null \<open>output\<close>; a missing key makes \<open>get\<close> return its default), and
  \<open>wait_for_analysis\<close> prints \<open>Analysis completed successfully!\<close> and returns the absent
  identifier \<open>None\<close>, with no error. An empty identifier in the document is returned as
  it is.
\<close>

theorem poller_reports_success_without_folder:
  "get_analysis_status ''a1'' (status_is ''COMPLETED'') =
     ([Run (status_command ''a1'')], (PStr ''COMPLETED'', PNone))
   \<and> wait_for_analysis ''a1'' 60 [status_is ''COMPLETED''] =
     ([Print ''Monitoring analysis a1...'',
       Run (status_command ''a1''), PrintVal ''Current status: '' (PStr ''COMPLETED''),
       Print ''Analysis completed successfully!''],
      Some (Inr PNone))
   \<and> get_analysis_status ''a1''
       (answer (PDict [(''status'', PStr ''COMPLETED''), (''output'', PNone)])) =
     ([Run (status_command ''a1''),
       Print ''Warning: Could not find output folder ID in completed analysis''],
      (PStr ''COMPLETED'', PNone))
   \<and> wait_for_analysis ''a1'' 60 [completed_with []] =
     ([Print ''Monitoring analysis a1...'',
       Run (status_command ''a1''), PrintVal ''Current status: '' (PStr ''COMPLETED''),
       Print ''Analysis completed successfully!''],
      Some (Inr (PStr [])))"
  by (simp add: wait_for_analysis_def get_analysis_status_def status_is_def completed_with_def
      answer_def py_get_def output_folder_lookup_def)

lemma lookup_without_folder:
  assumes "folder_id_of kvs = None"
  shows "(\<exists>e. output_folder_lookup (PDict kvs) = Inl e) \<or> output_folder_lookup (PDict kvs) = Inr PNone"
  using assms
  by (auto simp: folder_id_of_def output_folder_lookup_def py_get_def
      split: option.splits pyval.splits if_splits)

lemma completed_without_folder_query:
  assumes st: "map_of kvs ''status'' = Some (PStr ''COMPLETED'')" and nf: "folder_id_of kvs = None"
  shows "snd (get_analysis_status a (answer (PDict kvs))) = (PStr ''COMPLETED'', PNone)
         \<and> \<not> list_ex is_download (fst (get_analysis_status a (answer (PDict kvs))))"
  using lookup_without_folder [OF nf] st
  by (auto simp: get_analysis_status_def answer_def py_get_def)

lemma get_project_id_no_download: "\<not> list_ex is_download (fst (get_project_id l n))"
  by (simp add: get_project_id_def split: sum.splits option.splits)

lemma wait_completed_without_folder:
  assumes st: "map_of kvs ''status'' = Some (PStr ''COMPLETED'')" and nf: "folder_id_of kvs = None"
  shows "wait_for_analysis a iv (answer (PDict kvs) # later) =
           (Print (''Monitoring analysis '' @ a @ ''...'')
            # fst (get_analysis_status a (answer (PDict kvs)))
            @ [PrintVal ''Current status: '' (PStr ''COMPLETED''),
               Print ''Analysis completed successfully!''],
            Some (Inr PNone))"
proof -
  obtain t where g: "get_analysis_status a (answer (PDict kvs)) = (t, (PStr ''COMPLETED'', PNone))"
    using completed_without_folder_query [OF st nf, of a]
    by (cases "get_analysis_status a (answer (PDict kvs))") auto
  show ?thesis
    by (simp add: wait_for_analysis_def g)
qed

text \<open>
  The missing identifier is reported by the script, not by the poller. When the status
  query reports COMPLETED and the document carries no output location identifier
  (\<open>output.folder.id\<close> is missing or null, or \<open>output\<close> or \<open>folder\<close> is not an object),
  \<open>wait_for_analysis\<close> returns \<open>None\<close>, and \<open>main\<close>, with or without \<open>--no-wait\<close>, prints
  \<open>Could not get output folder ID\<close> as its last line, exits with 1 and runs no download.
\<close>

theorem completed_without_folder_is_failure:
  assumes st: "map_of kvs ''status'' = Some (PStr ''COMPLETED'')"
      and nf: "folder_id_of kvs = None"
      and cli: "check_ica_cli (probe_result env)"
      and proj: "truthy (snd (get_project_id (projects_result env) (dl_project_name args)))"
      and first: "status_results env = answer (PDict kvs) # later"
  shows "snd (get_analysis_status a (answer (PDict kvs))) = (PStr ''COMPLETED'', PNone)
         \<and> snd (wait_for_analysis a iv (answer (PDict kvs) # rest)) = Some (Inr PNone)
         \<and> snd (download_main env args) = Some 1
         \<and> last (fst (download_main env args)) = Print ''Could not get output folder ID''
         \<and> \<not> list_ex is_download (fst (download_main env args))"
proof -
  note q = completed_without_folder_query [OF st nf]
  have c1: "snd (get_analysis_status a (answer (PDict kvs))) = (PStr ''COMPLETED'', PNone)"
    using q [of a] by simp
  have c2: "snd (wait_for_analysis a iv (answer (PDict kvs) # rest)) = Some (Inr PNone)"
    by (simp add: wait_completed_without_folder [OF st nf])
  define aid where "aid = dl_analysis_id args"
  obtain t1 pid where p: "get_project_id (projects_result env) (dl_project_name args) = (t1, pid)"
    by (cases "get_project_id (projects_result env) (dl_project_name args)")
  have pt: "truthy pid" using proj p by simp
  have nd1: "\<not> list_ex is_download t1"
    using get_project_id_no_download [of "projects_result env" "dl_project_name args"] p by simp
  obtain t2 where g: "get_analysis_status aid (answer (PDict kvs)) = (t2, (PStr ''COMPLETED'', PNone))"
    using q [of aid] by (cases "get_analysis_status aid (answer (PDict kvs))") auto
  have nd2: "\<not> list_ex is_download t2"
    using q [of aid] g by simp
  have w: "wait_for_analysis aid (dl_polling_interval args) (answer (PDict kvs) # later) =
             (Print (''Monitoring analysis '' @ aid @ ''...'') # t2
              @ [PrintVal ''Current status: '' (PStr ''COMPLETED''),
                 Print ''Analysis completed successfully!''],
              Some (Inr PNone))"
    using wait_completed_without_folder [OF st nf, of aid "dl_polling_interval args" later]
    by (simp add: g)
  have m: "download_main env args =
             (if no_wait args
              then [Run [''ica'', ''--version''],
                    Run [''ica'', ''projects'', ''list'', ''--output'', ''json'']] @ t1 @ t2
                   @ [Print ''Could not get output folder ID'']
              else [Run [''ica'', ''--version''],
                    Run [''ica'', ''projects'', ''list'', ''--output'', ''json'']] @ t1
                   @ (Print (''Monitoring analysis '' @ aid @ ''...'') # t2
                      @ [PrintVal ''Current status: '' (PStr ''COMPLETED''),
                         Print ''Analysis completed successfully!''])
                   @ [Print ''Could not get output folder ID''],
              Some 1)"
    using cli pt
    by (simp add: download_main_def Let_def p first aid_def [symmetric] g w finish_download_def)
  have c3: "snd (download_main env args) = Some 1"
    by (simp add: m)
  have c4: "last (fst (download_main env args)) = Print ''Could not get output folder ID''"
    by (simp add: m)
  have c5: "\<not> list_ex is_download (fst (download_main env args))"
    using nd1 nd2 by (simp add: m)
  from c1 c2 c3 c4 c5 show ?thesis by (intro conjI)
qed

theorem completed_without_folder_is_failure_witness:
  "snd (wait_for_analysis ''a1'' 60 [status_is ''COMPLETED'']) = Some (Inr PNone)
   \<and> snd (download_main no_folder_env no_folder_args) = Some 1
   \<and> last (fst (download_main no_folder_env no_folder_args)) =
       Print ''Could not get output folder ID''
   \<and> \<not> list_ex is_download (fst (download_main no_folder_env no_folder_args))"
proof -
  have st: "map_of [(''status'', PStr ''COMPLETED'')] ''status'' = Some (PStr ''COMPLETED'')"
    by simp
  have nf: "folder_id_of [(''status'', PStr ''COMPLETED'')] = None"
    by (simp add: folder_id_of_def)
  have cli: "check_ica_cli (probe_result no_folder_env)"
    by (simp add: no_folder_env_def check_ica_cli_def)
  have proj: "truthy (snd (get_project_id (projects_result no_folder_env)
                             (dl_project_name no_folder_args)))"
    by (simp add: no_folder_env_def no_folder_args_def get_project_id_def answer_def py_iter_def
        py_getitem_def str_lower_def py_lower_def lower_char_def)
  have first: "status_results no_folder_env = answer (PDict [(''status'', PStr ''COMPLETED'')]) # []"
    by (simp add: no_folder_env_def status_is_def)
  from completed_without_folder_is_failure [OF st nf cli proj first, of "''a1''" 60 "[]"]
  show ?thesis
    by (simp add: status_is_def)
qed

section \<open>Notifications and monitoring loops on their failing inputs\<close>

lemma deliver_both:
  "send_notifications both_channels delivering subject msg =
     ([SmtpConnect ''localhost'' 25,
       SmtpSend ''ica-monitor@localhost'' ''ops@example.org'' subject msg,
       SlackPost ''https://hooks.example.org/T1'' msg], None)"
  by (simp add: send_notifications_def send_email_def send_slack_def both_channels_def
      delivering_def opt_truthy_def)

text \<open>
  Claim C5, on the code. \<open>_send_email\<close> handles no exception: when the mail server refuses
  the connection the exception leaves \<open>_send_email\<close> and the notifying place, and the chat
  webhook, although configured, is never posted to. The other two parts of the claim
  hold: a failure of the chat channel is caught and logged after the mail was sent, and
  without a webhook \<open>_send_slack\<close> does nothing and raises nothing.
\<close>

theorem mail_failure_skips_chat_channel:
  "send_email both_channels mail_refused ''Cost Alert'' ''over budget'' =
     ([SmtpConnect ''localhost'' 25], Some (Raised ''Connection refused''))
   \<and> send_notifications both_channels mail_refused ''Cost Alert'' ''over budget'' =
     ([SmtpConnect ''localhost'' 25], Some (Raised ''Connection refused''))
   \<and> send_notifications both_channels (delivering\<lparr>post_error := Some ''timed out''\<rparr>)
       ''Cost Alert'' ''over budget'' =
     ([SmtpConnect ''localhost'' 25,
       SmtpSend ''ica-monitor@localhost'' ''ops@example.org'' ''Cost Alert'' ''over budget'',
       SlackPost ''https://hooks.example.org/T1'' ''over budget'',
       LogExc ''Failed to send Slack notification: '' (Raised ''timed out'')], None)
   \<and> send_slack (both_channels\<lparr>slack_webhook := None\<rparr>) delivering ''over budget'' = ([], None)"
  by (simp add: send_notifications_def send_email_def send_slack_def both_channels_def
      delivering_def mail_refused_def opt_truthy_def)

text \<open>
  Claim C8, on the code. After a pass whose status command exits with a code other than
  0, \<open>continue\<close> starts the next pass at once: two such passes of \<open>monitor_storage\<close> in a
  row poll twice and notify twice with no sleep in between, and likewise in
  \<open>monitor_costs\<close>; only a pass whose command succeeds ends with the sleep of
  \<open>check_interval\<close> seconds. The loop itself goes on in each case.
\<close>

theorem failed_poll_is_not_followed_by_sleep:
  "monitor_storage ''proj'' both_channels ''90.0'' 3600 [failed_poll, failed_poll] =
     ([LogInfo ''Starting storage monitoring (threshold: 90.0%)'',
       Run [''ica'', ''projects'', ''storage'', ''proj''],
       LogError ''Failed to get storage info: unreachable'',
       SmtpConnect ''localhost'' 25,
       SmtpSend ''ica-monitor@localhost'' ''ops@example.org'' ''Storage Monitoring Error''
         ''Failed to get storage info: unreachable'',
       SlackPost ''https://hooks.example.org/T1'' ''Failed to get storage info: unreachable'',
       Run [''ica'', ''projects'', ''storage'', ''proj''],
       LogError ''Failed to get storage info: unreachable'',
       SmtpConnect ''localhost'' 25,
       SmtpSend ''ica-monitor@localhost'' ''ops@example.org'' ''Storage Monitoring Error''
         ''Failed to get storage info: unreachable'',
       SlackPost ''https://hooks.example.org/T1'' ''Failed to get storage info: unreachable''],
      Polling)
   \<and> sleeps_of (fst (monitor_storage ''proj'' both_channels ''90.0'' 3600
                       [failed_poll, failed_poll])) = []
   \<and> sleeps_of (fst (monitor_costs ''proj'' both_channels ''100.0'' 86400
                       [failed_poll, failed_poll])) = []
   \<and> sleeps_of (fst (monitor_storage ''proj'' both_channels ''90.0'' 3600
                       [quiet_poll, quiet_poll])) = [3600, 3600]"
  by (simp add: monitor_storage_def monitor_costs_def failed_poll_def quiet_poll_def deliver_both
      Let_def)

section \<open>Further properties of the loops and of the batch\<close>

lemma sleeps_of_append: "sleeps_of (a @ b) = sleeps_of a @ sleeps_of b"
  by (induction a rule: sleeps_of.induct) simp_all

lemma send_notifications_delivers:
  assumes "delivers ch"
  shows "\<exists>t. send_notifications config ch subject msg = (t, None)
           \<and> runs_of t = [] \<and> sleeps_of t = []"
  using assms
  by (auto simp: send_notifications_def send_email_def send_slack_def delivers_def Let_def
      split: option.splits)

lemma monitor_loop_calm:
  assumes "list_all calm ticks" and iv: "0 \<le> iv"
  shows "snd (monitor_loop cmd failure es al config iv ticks) = Polling
         \<and> runs_of (fst (monitor_loop cmd failure es al config iv ticks)) =
             replicate (length ticks) cmd
         \<and> sleeps_of (fst (monitor_loop cmd failure es al config iv ticks)) =
             replicate (length (filter succeeded ticks)) iv"
  using assms
proof (induction ticks)
  case Nil
  then show ?case by simp
next
  case (Cons now later)
  from Cons.prems have c: "calm now" and rest: "list_all calm later" by simp_all
  note ih = Cons.IH [OF rest iv]
  obtain t' s where l: "monitor_loop cmd failure es al config iv later = (t', s)"
    by (cases "monitor_loop cmd failure es al config iv later")
  from ih l have s: "s = Polling" and r: "runs_of t' = replicate (length later) cmd"
    and z: "sleeps_of t' = replicate (length (filter succeeded later)) iv"
    by simp_all
  from c obtain result where p: "poll now = Inr result" and d: "delivers (answers now)"
    by (auto simp: calm_def split: sum.splits)
  have sn: "succeeded now = (returncode result = 0)"
    using p by (simp add: succeeded_def)
  show ?case
  proof (cases "returncode result = 0")
    case False
    from send_notifications_delivers [OF d, of config es "failure @ stderr result"]
    obtain t where n: "send_notifications config (answers now) es (failure @ stderr result) = (t, None)"
      and nr: "runs_of t = []" and ns: "sleeps_of t = []"
      by blast
    from False p l n nr ns s r z show ?thesis
      by (simp add: Let_def runs_of_append sleeps_of_append sn)
  next
    case True
    with c p obtain over msg where m: "measured now = Usage over msg"
      by (auto simp: calm_def split: reading.splits)
    from send_notifications_delivers [OF d, of config al msg]
    obtain t where n: "send_notifications config (answers now) al msg = (t, None)"
      and nr: "runs_of t = []" and ns: "sleeps_of t = []"
      by blast
    from True p l m n nr ns s r z iv show ?thesis
      by (simp add: Let_def runs_of_append sleeps_of_append sn)
  qed
qed

text \<open>
  The monitoring loops go on as long as nothing raises: with an interval that is not
  negative, over passes in which the status
  command returns, the reading can be taken and the channels deliver, \<open>monitor_storage\<close>
  and \<open>monitor_costs\<close> are still polling after the last pass, have run the status command
  once per pass, and have slept \<open>check_interval\<close> once for every pass whose command
  succeeded (and not for the others).
\<close>

theorem monitors_keep_polling:
  assumes "list_all calm ticks" and "0 \<le> iv"
  shows "snd (monitor_storage project config threshold iv ticks) = Polling
         \<and> runs_of (fst (monitor_storage project config threshold iv ticks)) =
             replicate (length ticks) [''ica'', ''projects'', ''storage'', project]
         \<and> sleeps_of (fst (monitor_storage project config threshold iv ticks)) =
             replicate (length (filter succeeded ticks)) iv
         \<and> snd (monitor_costs project config threshold iv ticks) = Polling
         \<and> runs_of (fst (monitor_costs project config threshold iv ticks)) =
             replicate (length ticks) [''ica'', ''projects'', ''costs'', project]
         \<and> sleeps_of (fst (monitor_costs project config threshold iv ticks)) =
             replicate (length (filter succeeded ticks)) iv"
  using monitor_loop_calm [OF assms, of "[''ica'', ''projects'', ''storage'', project]"
      "''Failed to get storage info: ''" "''Storage Monitoring Error''" "''Storage Usage Alert''"
      config]
    monitor_loop_calm [OF assms, of "[''ica'', ''projects'', ''costs'', project]"
      "''Failed to get cost info: ''" "''Cost Monitoring Error''" "''Cost Alert''" config]
  by (simp add: monitor_storage_def monitor_costs_def case_prod_beta)

theorem monitors_keep_polling_witness:
  "snd (monitor_storage ''proj'' both_channels ''90.0'' 3600
          [quiet_poll, failed_poll, quiet_poll]) = Polling
   \<and> length (runs_of (fst (monitor_storage ''proj'' both_channels ''90.0'' 3600
                             [quiet_poll, failed_poll, quiet_poll]))) = 3
   \<and> sleeps_of (fst (monitor_storage ''proj'' both_channels ''90.0'' 3600
                       [quiet_poll, failed_poll, quiet_poll])) = [3600, 3600]"
proof -
  have c: "list_all calm [quiet_poll, failed_poll, quiet_poll]"
    by (simp add: calm_def quiet_poll_def failed_poll_def delivers_def delivering_def)
  have f: "succeeded quiet_poll" "\<not> succeeded failed_poll"
    by (simp_all add: succeeded_def quiet_poll_def failed_poll_def)
  have iv: "(0::int) \<le> 3600"
    by simp
  from monitors_keep_polling [OF c iv, of "''proj''" both_channels "''90.0''"]
  show ?thesis
    by (simp add: f)
qed

lemma process_sample_raises:
  assumes "\<not> has_sample_id s"
  shows "\<exists>t e. process_sample env pn s = (t, Inl e)"
proof -
  from assms obtain e' where g: "row_getitem s ''sample_id'' = Inl e'"
    by (auto simp: has_sample_id_def split: sum.splits)
  obtain t x where tb: "try_body env pn s = (t, x)"
    by (cases "try_body env pn s")
  show ?thesis
  proof (cases x)
    case (Inl e)
    with tb g show ?thesis by (simp add: process_sample_def)
  next
    case (Inr r)
    with tb try_body_completed [of env pn s t r] g show ?thesis by simp
  qed
qed

lemma collect_results_raises:
  assumes "\<not> list_all has_sample_id samples"
  shows "\<exists>e. collect_results (run_items envs pn i samples) = Inl e"
  using assms
proof (induction samples arbitrary: i)
  case Nil
  then show ?case by simp
next
  case (Cons s ss)
  obtain t x where p: "process_sample (envs i) pn s = (t, x)"
    by (cases "process_sample (envs i) pn s")
  show ?case
  proof (cases x)
    case (Inl e)
    with p show ?thesis by simp
  next
    case (Inr r)
    with p process_sample_raises [of s "envs i" pn] have "has_sample_id s" by auto
    with Cons.prems have "\<not> list_all has_sample_id ss" by simp
    from Cons.IH [OF this, of "Suc i"] obtain e where
      "collect_results (run_items envs pn (Suc i) ss) = Inl e" by blast
    with p Inr show ?thesis by simp
  qed
qed

text \<open>
  The identity of a sample is what the handler of \<open>process_sample\<close> needs to record a
  failure: a batch with a row from which \<open>sample_id\<close> cannot be read raises out of
  \<open>process_batch\<close>, and neither file is written.
\<close>

theorem batch_aborts_without_sample_id:
  assumes "\<not> list_all has_sample_id samples"
  shows "\<exists>e. process_batch env workers pn samples = Inl e"
proof -
  from collect_results_raises [OF assms, of "item_envs env" pn 0]
  obtain e where "collect_results (run_items (item_envs env) pn 0 samples) = Inl e" by blast
  then show ?thesis by (simp add: process_batch_def)
qed

theorem batch_aborts_without_sample_id_witness:
  "\<exists>e. process_batch (one_bad 0) 5 ''proj'' [demo_row ''A'', nameless_row] = Inl e"
proof -
  have "\<not> list_all has_sample_id [demo_row ''A'', nameless_row]"
    by (simp add: has_sample_id_def nameless_row_def row_getitem_def)
  from batch_aborts_without_sample_id [OF this] show ?thesis .
qed

end
